theory Spec2Isabelle
  imports Main "HOL-Library.Multiset"
begin

section \<open>Python values, messages and exceptions\<close>

text \<open>
  The values a caller can hand to a setter of \<^verbatim>\<open>pptx/table.py\<close>. \<open>PyInt\<close> stands for
  \<^verbatim>\<open>int\<close> and its subclasses (\<^verbatim>\<open>bool\<close>, \<^verbatim>\<open>Length\<close>, \<^verbatim>\<open>Emu\<close>); \<open>PyFloat m e\<close> is the finite
  float \<open>m * 2^e\<close>, so \<^verbatim>\<open>3.5\<close> is \<open>PyFloat 7 (-1)\<close>. No arithmetic is done on floats here:
  table.py only tests their type.
\<close>

datatype pyval =
    PyNone
  | PyInt int
  | PyFloat int int
  | PyStr string
  | PyTuple "pyval list"

text \<open>
  An exception message. \<open>Format tmpl v\<close> is the template \<open>tmpl\<close>, which holds one conversion
  specifier (\<^verbatim>\<open>%s\<close> or \<^verbatim>\<open>%d\<close>), with that specifier replaced by the rendering of \<open>v\<close>;
  \<open>Literal\<close> is a fixed text.
\<close>

datatype message = Literal string | Format string pyval

datatype error =
    TypeError message
  | IndexError message
  | AttributeError string
  | AccessorError string

text \<open>
  Python's \<^verbatim>\<open>tmpl % arg\<close> for a template with exactly one conversion specifier. A tuple on
  the right is the argument list itself, so only a one-element tuple fits the template; any
  other value is the single argument.
\<close>

fun py_mod_format :: "string \<Rightarrow> pyval \<Rightarrow> error + message" where
  "py_mod_format tmpl (PyTuple []) =
     Inl (TypeError (Literal ''not enough arguments for format string''))"
| "py_mod_format tmpl (PyTuple [x]) = Inr (Format tmpl x)"
| "py_mod_format tmpl (PyTuple (x # y # zs)) =
     Inl (TypeError (Literal ''not all arguments converted during string formatting''))"
| "py_mod_format tmpl v = Inr (Format tmpl v)"

text \<open>
  Python's \<^verbatim>\<open>xs[idx]\<close> on a built-in list: a negative index counts from the end, and an
  index outside the list raises.
\<close>

definition list_getitem :: "'a list \<Rightarrow> int \<Rightarrow> error + 'a" where
  "list_getitem xs idx =
     (let n = int (length xs); j = (if idx < 0 then idx + n else idx)
      in if 0 \<le> j \<and> j < n then Inr (xs ! nat j)
         else Inl (IndexError (Literal ''list index out of range'')))"

text \<open>
  Modelled from the spec: \<^verbatim>\<open>pptx.compat.is_integer\<close> is imported by table.py, its body is not
  part of the sources. The spec has the margin setter accept "an integer-valued length".
\<close>

fun is_integer :: "pyval \<Rightarrow> bool" where
  "is_integer (PyInt i) = True"
| "is_integer v = False"

section \<open>The document tree, the graphic frame and the proxy objects\<close>

type_synonym elem = nat
type_synonym gf_ref = nat
type_synonym oid = nat

datatype MSO_ANCHOR = TOP | MIDDLE | BOTTOM

text \<open>
  Modelled from the spec: the element classes behind \<^verbatim>\<open>self._tbl\<close>, \<^verbatim>\<open>self._tr\<close>, \<^verbatim>\<open>self._gridCol\<close>
  and \<^verbatim>\<open>self._tc\<close> (the spec's Grid Accessor) are not part of table.py. The spec has them
  give "attribute read/write", "ordered sequence access" to the row, column-definition and
  cell elements, and "merge-aware coordinate resolution". So the XML tree is a store: an
  element is an address (\<^verbatim>\<open>is\<close> compares addresses), a child sequence maps the parent to the
  addresses of its children, an attribute maps the element to the value last written, and
  \<open>tbl_tc\<close> is \<^verbatim>\<open>CT_Table.tc(row_idx, col_idx)\<close>, which fails or names the cell element at a
  coordinate. A margin attribute holds what the setter stored (an integer or \<^verbatim>\<open>None\<close>).
\<close>

record document =
  tbl_tr_lst :: "elem \<Rightarrow> elem list"
  tbl_tblGrid :: "elem \<Rightarrow> elem"
  tblGrid_gridCol_lst :: "elem \<Rightarrow> elem list"
  tr_tc_lst :: "elem \<Rightarrow> elem list"
  tbl_tc :: "elem \<Rightarrow> int \<Rightarrow> int \<Rightarrow> error + elem"
  tbl_firstCol :: "elem \<Rightarrow> bool"
  tbl_firstRow :: "elem \<Rightarrow> bool"
  tbl_bandRow :: "elem \<Rightarrow> bool"
  tbl_lastCol :: "elem \<Rightarrow> bool"
  tbl_lastRow :: "elem \<Rightarrow> bool"
  tbl_bandCol :: "elem \<Rightarrow> bool"
  tr_h :: "elem \<Rightarrow> int"
  gridCol_w :: "elem \<Rightarrow> int"
  tc_marL :: "elem \<Rightarrow> pyval"
  tc_marR :: "elem \<Rightarrow> pyval"
  tc_marT :: "elem \<Rightarrow> pyval"
  tc_marB :: "elem \<Rightarrow> pyval"
  tc_anchor :: "elem \<Rightarrow> MSO_ANCHOR option"
  tc_is_merge_origin :: "elem \<Rightarrow> bool"

text \<open>
  The proxy objects. Each holds the fields its \<^verbatim>\<open>__init__\<close> stores (\<^verbatim>\<open>Subshape.__init__\<close>
  stores the parent) and the identity \<open>oid\<close> the interpreter gave it when it was built.
\<close>

record Table =
  Table_tbl :: elem
  Table_graphic_frame :: gf_ref
  Table_oid :: oid

record RowCollection =
  RowCollection_tbl :: elem
  RowCollection_parent :: Table
  RowCollection_oid :: oid

record ColumnCollection =
  ColumnCollection_tbl :: elem
  ColumnCollection_parent :: Table
  ColumnCollection_oid :: oid

record Row =
  Row_tr :: elem
  Row_parent :: RowCollection
  Row_oid :: oid

record Column =
  Column_gridCol :: elem
  Column_parent :: ColumnCollection
  Column_oid :: oid

record CellCollection =
  CellCollection_tr :: elem
  CellCollection_parent :: Row
  CellCollection_oid :: oid

datatype cell_parent = ParentTable Table | ParentCells CellCollection

record Cell =
  Cell_tc :: elem
  Cell_parent :: cell_parent
  Cell_oid :: oid

text \<open>
  The whole state: the document; the height and width of every graphic frame (the owning
  container, not part of table.py: assigning \<^verbatim>\<open>height\<close> or \<^verbatim>\<open>width\<close> stores the value); the
  cache attributes \<^verbatim>\<open>_rows\<close> and \<^verbatim>\<open>_columns\<close> of every Table instance, keyed by the instance's
  identity; and the next identity the interpreter hands out.
\<close>

record state =
  doc :: document
  gf_height :: "gf_ref \<Rightarrow> int"
  gf_width :: "gf_ref \<Rightarrow> int"
  rows_cache :: "oid \<Rightarrow> RowCollection option"
  columns_cache :: "oid \<Rightarrow> ColumnCollection option"
  next_oid :: oid

definition alloc :: "state \<Rightarrow> oid \<times> state" where
  "alloc s = (next_oid s, s\<lparr>next_oid := Suc (next_oid s)\<rparr>)"

subsection \<open>Constructors\<close>

definition Table_init :: "elem \<Rightarrow> gf_ref \<Rightarrow> state \<Rightarrow> Table \<times> state" where
  "Table_init tbl graphic_frame s =
     (case alloc s of (i, s') \<Rightarrow>
        (\<lparr>Table_tbl = tbl, Table_graphic_frame = graphic_frame, Table_oid = i\<rparr>,
         s'\<lparr>rows_cache := (rows_cache s')(i := None),
            columns_cache := (columns_cache s')(i := None)\<rparr>))"

definition RowCollection_init :: "elem \<Rightarrow> Table \<Rightarrow> state \<Rightarrow> RowCollection \<times> state" where
  "RowCollection_init tbl parent s =
     (case alloc s of (i, s') \<Rightarrow>
        (\<lparr>RowCollection_tbl = tbl, RowCollection_parent = parent, RowCollection_oid = i\<rparr>, s'))"

definition ColumnCollection_init ::
  "elem \<Rightarrow> Table \<Rightarrow> state \<Rightarrow> ColumnCollection \<times> state" where
  "ColumnCollection_init tbl parent s =
     (case alloc s of (i, s') \<Rightarrow>
        (\<lparr>ColumnCollection_tbl = tbl, ColumnCollection_parent = parent,
          ColumnCollection_oid = i\<rparr>, s'))"

definition Row_init :: "elem \<Rightarrow> RowCollection \<Rightarrow> state \<Rightarrow> Row \<times> state" where
  "Row_init tr parent s =
     (case alloc s of (i, s') \<Rightarrow> (\<lparr>Row_tr = tr, Row_parent = parent, Row_oid = i\<rparr>, s'))"

definition Column_init :: "elem \<Rightarrow> ColumnCollection \<Rightarrow> state \<Rightarrow> Column \<times> state" where
  "Column_init gridCol parent s =
     (case alloc s of (i, s') \<Rightarrow>
        (\<lparr>Column_gridCol = gridCol, Column_parent = parent, Column_oid = i\<rparr>, s'))"

definition CellCollection_init :: "elem \<Rightarrow> Row \<Rightarrow> state \<Rightarrow> CellCollection \<times> state" where
  "CellCollection_init tr parent s =
     (case alloc s of (i, s') \<Rightarrow>
        (\<lparr>CellCollection_tr = tr, CellCollection_parent = parent, CellCollection_oid = i\<rparr>, s'))"

definition Cell_init :: "elem \<Rightarrow> cell_parent \<Rightarrow> state \<Rightarrow> Cell \<times> state" where
  "Cell_init tc parent s =
     (case alloc s of (i, s') \<Rightarrow> (\<lparr>Cell_tc = tc, Cell_parent = parent, Cell_oid = i\<rparr>, s'))"

section \<open>Collections: indexed access, length, iteration\<close>

subsection \<open>\<^verbatim>\<open>_RowCollection\<close>\<close>

definition RowCollection_len :: "RowCollection \<Rightarrow> state \<Rightarrow> nat" where
  "RowCollection_len self s = length (tbl_tr_lst (doc s) (RowCollection_tbl self))"

definition RowCollection_getitem ::
  "RowCollection \<Rightarrow> int \<Rightarrow> state \<Rightarrow> (error + Row) \<times> state" where
  "RowCollection_getitem self idx s =
     (if idx < 0 \<or> idx \<ge> int (RowCollection_len self s) then
        (case py_mod_format ''row index [%d] out of range'' (PyInt idx) of
           Inl e \<Rightarrow> (Inl e, s)
         | Inr msg \<Rightarrow> (Inl (IndexError msg), s))
      else
        (case list_getitem (tbl_tr_lst (doc s) (RowCollection_tbl self)) idx of
           Inl e \<Rightarrow> (Inl e, s)
         | Inr tr \<Rightarrow> (case Row_init tr self s of (row, s') \<Rightarrow> (Inr row, s'))))"

subsection \<open>\<^verbatim>\<open>_ColumnCollection\<close>\<close>

definition ColumnCollection_len :: "ColumnCollection \<Rightarrow> state \<Rightarrow> nat" where
  "ColumnCollection_len self s =
     length (tblGrid_gridCol_lst (doc s) (tbl_tblGrid (doc s) (ColumnCollection_tbl self)))"

definition ColumnCollection_getitem ::
  "ColumnCollection \<Rightarrow> int \<Rightarrow> state \<Rightarrow> (error + Column) \<times> state" where
  "ColumnCollection_getitem self idx s =
     (if idx < 0 \<or> idx \<ge> int (length (tblGrid_gridCol_lst (doc s)
                                   (tbl_tblGrid (doc s) (ColumnCollection_tbl self)))) then
        (case py_mod_format ''column index [%d] out of range'' (PyInt idx) of
           Inl e \<Rightarrow> (Inl e, s)
         | Inr msg \<Rightarrow> (Inl (IndexError msg), s))
      else
        (case list_getitem (tblGrid_gridCol_lst (doc s)
                              (tbl_tblGrid (doc s) (ColumnCollection_tbl self))) idx of
           Inl e \<Rightarrow> (Inl e, s)
         | Inr gridCol \<Rightarrow> (case Column_init gridCol self s of (col, s') \<Rightarrow> (Inr col, s'))))"

subsection \<open>\<^verbatim>\<open>_CellCollection\<close>\<close>

definition CellCollection_len :: "CellCollection \<Rightarrow> state \<Rightarrow> nat" where
  "CellCollection_len self s = length (tr_tc_lst (doc s) (CellCollection_tr self))"

definition CellCollection_getitem ::
  "CellCollection \<Rightarrow> int \<Rightarrow> state \<Rightarrow> (error + Cell) \<times> state" where
  "CellCollection_getitem self idx s =
     (if idx < 0 \<or> idx \<ge> int (length (tr_tc_lst (doc s) (CellCollection_tr self))) then
        (case py_mod_format ''cell index [%d] out of range'' (PyInt idx) of
           Inl e \<Rightarrow> (Inl e, s)
         | Inr msg \<Rightarrow> (Inl (IndexError msg), s))
      else
        (case list_getitem (tr_tc_lst (doc s) (CellCollection_tr self)) idx of
           Inl e \<Rightarrow> (Inl e, s)
         | Inr tc \<Rightarrow> (case Cell_init tc (ParentCells self) s of (cell, s') \<Rightarrow> (Inr cell, s'))))"

text \<open>
  \<^verbatim>\<open>__iter__\<close> returns the generator \<^verbatim>\<open>(_Cell(tc, self) for tc in self._tr.tc_lst)\<close>: the list
  \<^verbatim>\<open>tc_lst\<close> is read once, when the generator is made, and one proxy is built per element.
  \<open>CellCollection_iter\<close> is the sequence the generator yields when it is run to its end.
\<close>

fun CellCollection_gen :: "CellCollection \<Rightarrow> elem list \<Rightarrow> state \<Rightarrow> Cell list \<times> state" where
  "CellCollection_gen self [] s = ([], s)"
| "CellCollection_gen self (tc # tcs) s =
     (case Cell_init tc (ParentCells self) s of (cell, s') \<Rightarrow>
        (case CellCollection_gen self tcs s' of (cells, s'') \<Rightarrow> (cell # cells, s'')))"

definition CellCollection_iter :: "CellCollection \<Rightarrow> state \<Rightarrow> Cell list \<times> state" where
  "CellCollection_iter self s =
     CellCollection_gen self (tr_tc_lst (doc s) (CellCollection_tr self)) s"

subsection \<open>Iterating a collection that has no \<^verbatim>\<open>__iter__\<close>\<close>

text \<open>
  \<^verbatim>\<open>_RowCollection\<close> and \<^verbatim>\<open>_ColumnCollection\<close> define \<^verbatim>\<open>__getitem__\<close> and \<^verbatim>\<open>__len__\<close> only, so
  \<^verbatim>\<open>for row in rows\<close> runs Python's sequence protocol: \<^verbatim>\<open>rows[0]\<close>, \<^verbatim>\<open>rows[1]\<close>, ... until
  \<^verbatim>\<open>__getitem__\<close> raises IndexError, which ends the loop; any other exception leaves it.
  \<open>for_in_RowCollection body rows i s\<close> is the list comprehension
  \<^verbatim>\<open>[body(row) for row in rows]\<close> from index \<open>i\<close> on, \<open>body\<close> reading the state in which its
  row was handed out.
\<close>

function for_in_RowCollection ::
  "(Row \<Rightarrow> state \<Rightarrow> 'a) \<Rightarrow> RowCollection \<Rightarrow> nat \<Rightarrow> state \<Rightarrow> (error + 'a list) \<times> state" where
  "for_in_RowCollection body rows i s =
     (case RowCollection_getitem rows (int i) s of
        (Inl (IndexError msg), s') \<Rightarrow> (Inr [], s')
      | (Inl e, s') \<Rightarrow> (Inl e, s')
      | (Inr row, s') \<Rightarrow>
          (case for_in_RowCollection body rows (Suc i) s' of
             (Inl e, s'') \<Rightarrow> (Inl e, s'')
           | (Inr ys, s'') \<Rightarrow> (Inr (body row s' # ys), s'')))"
  by pat_completeness auto
termination
  apply (relation "measure (\<lambda>(body, rows, i, s).
           length (tbl_tr_lst (doc s) (RowCollection_tbl rows)) - i)")
   apply simp
  apply (auto simp: RowCollection_getitem_def RowCollection_len_def list_getitem_def
      Row_init_def alloc_def Let_def split: if_splits sum.splits)
  done

declare for_in_RowCollection.simps [simp del]

function for_in_ColumnCollection ::
  "(Column \<Rightarrow> state \<Rightarrow> 'a) \<Rightarrow> ColumnCollection \<Rightarrow> nat \<Rightarrow> state
     \<Rightarrow> (error + 'a list) \<times> state" where
  "for_in_ColumnCollection body columns i s =
     (case ColumnCollection_getitem columns (int i) s of
        (Inl (IndexError msg), s') \<Rightarrow> (Inr [], s')
      | (Inl e, s') \<Rightarrow> (Inl e, s')
      | (Inr col, s') \<Rightarrow>
          (case for_in_ColumnCollection body columns (Suc i) s' of
             (Inl e, s'') \<Rightarrow> (Inl e, s'')
           | (Inr ys, s'') \<Rightarrow> (Inr (body col s' # ys), s'')))"
  by pat_completeness auto
termination
  apply (relation "measure (\<lambda>(body, columns, i, s).
           length (tblGrid_gridCol_lst (doc s)
                     (tbl_tblGrid (doc s) (ColumnCollection_tbl columns))) - i)")
   apply simp
  apply (auto simp: ColumnCollection_getitem_def list_getitem_def
      Column_init_def alloc_def Let_def split: if_splits sum.splits)
  done

declare for_in_ColumnCollection.simps [simp del]

definition RowCollection_iter :: "RowCollection \<Rightarrow> state \<Rightarrow> (error + Row list) \<times> state" where
  "RowCollection_iter self s = for_in_RowCollection (\<lambda>row s'. row) self 0 s"

definition ColumnCollection_iter ::
  "ColumnCollection \<Rightarrow> state \<Rightarrow> (error + Column list) \<times> state" where
  "ColumnCollection_iter self s = for_in_ColumnCollection (\<lambda>col s'. col) self 0 s"

section \<open>\<^verbatim>\<open>Table\<close>\<close>

definition Table_cell :: "Table \<Rightarrow> int \<Rightarrow> int \<Rightarrow> state \<Rightarrow> (error + Cell) \<times> state" where
  "Table_cell self row_idx col_idx s =
     (case tbl_tc (doc s) (Table_tbl self) row_idx col_idx of
        Inl e \<Rightarrow> (Inl e, s)
      | Inr tc \<Rightarrow> (case Cell_init tc (ParentTable self) s of (cell, s') \<Rightarrow> (Inr cell, s')))"

text \<open>
  Modelled from the spec: the decorator \<^verbatim>\<open>pptx.util.lazyproperty\<close> is imported by table.py,
  its body is not part of the sources. The spec has the collection "created on first
  access, reused thereafter for the lifetime of the Table instance": the first access runs
  the decorated method and stores its result on the instance, a later access returns what
  is stored.
\<close>

definition Table_columns :: "Table \<Rightarrow> state \<Rightarrow> ColumnCollection \<times> state" where
  "Table_columns self s =
     (case columns_cache s (Table_oid self) of
        Some value \<Rightarrow> (value, s)
      | None \<Rightarrow>
          (case ColumnCollection_init (Table_tbl self) self s of (value, s') \<Rightarrow>
             (value, s'\<lparr>columns_cache := (columns_cache s')(Table_oid self := Some value)\<rparr>)))"

definition Table_rows :: "Table \<Rightarrow> state \<Rightarrow> RowCollection \<times> state" where
  "Table_rows self s =
     (case rows_cache s (Table_oid self) of
        Some value \<Rightarrow> (value, s)
      | None \<Rightarrow>
          (case RowCollection_init (Table_tbl self) self s of (value, s') \<Rightarrow>
             (value, s'\<lparr>rows_cache := (rows_cache s')(Table_oid self := Some value)\<rparr>)))"

definition Table_first_col :: "Table \<Rightarrow> state \<Rightarrow> bool" where
  "Table_first_col self s = tbl_firstCol (doc s) (Table_tbl self)"

definition Table_first_col_set :: "Table \<Rightarrow> bool \<Rightarrow> state \<Rightarrow> state" where
  "Table_first_col_set self value s =
     s\<lparr>doc := (doc s)\<lparr>tbl_firstCol := (tbl_firstCol (doc s))(Table_tbl self := value)\<rparr>\<rparr>"

definition Table_first_row :: "Table \<Rightarrow> state \<Rightarrow> bool" where
  "Table_first_row self s = tbl_firstRow (doc s) (Table_tbl self)"

definition Table_first_row_set :: "Table \<Rightarrow> bool \<Rightarrow> state \<Rightarrow> state" where
  "Table_first_row_set self value s =
     s\<lparr>doc := (doc s)\<lparr>tbl_firstRow := (tbl_firstRow (doc s))(Table_tbl self := value)\<rparr>\<rparr>"

definition Table_horz_banding :: "Table \<Rightarrow> state \<Rightarrow> bool" where
  "Table_horz_banding self s = tbl_bandRow (doc s) (Table_tbl self)"

definition Table_horz_banding_set :: "Table \<Rightarrow> bool \<Rightarrow> state \<Rightarrow> state" where
  "Table_horz_banding_set self value s =
     s\<lparr>doc := (doc s)\<lparr>tbl_bandRow := (tbl_bandRow (doc s))(Table_tbl self := value)\<rparr>\<rparr>"

definition Table_last_col :: "Table \<Rightarrow> state \<Rightarrow> bool" where
  "Table_last_col self s = tbl_lastCol (doc s) (Table_tbl self)"

definition Table_last_col_set :: "Table \<Rightarrow> bool \<Rightarrow> state \<Rightarrow> state" where
  "Table_last_col_set self value s =
     s\<lparr>doc := (doc s)\<lparr>tbl_lastCol := (tbl_lastCol (doc s))(Table_tbl self := value)\<rparr>\<rparr>"

definition Table_last_row :: "Table \<Rightarrow> state \<Rightarrow> bool" where
  "Table_last_row self s = tbl_lastRow (doc s) (Table_tbl self)"

definition Table_last_row_set :: "Table \<Rightarrow> bool \<Rightarrow> state \<Rightarrow> state" where
  "Table_last_row_set self value s =
     s\<lparr>doc := (doc s)\<lparr>tbl_lastRow := (tbl_lastRow (doc s))(Table_tbl self := value)\<rparr>\<rparr>"

definition Table_vert_banding :: "Table \<Rightarrow> state \<Rightarrow> bool" where
  "Table_vert_banding self s = tbl_bandCol (doc s) (Table_tbl self)"

definition Table_vert_banding_set :: "Table \<Rightarrow> bool \<Rightarrow> state \<Rightarrow> state" where
  "Table_vert_banding_set self value s =
     s\<lparr>doc := (doc s)\<lparr>tbl_bandCol := (tbl_bandCol (doc s))(Table_tbl self := value)\<rparr>\<rparr>"

definition Row_height :: "Row \<Rightarrow> state \<Rightarrow> int" where
  "Row_height self s = tr_h (doc s) (Row_tr self)"

definition Column_width :: "Column \<Rightarrow> state \<Rightarrow> int" where
  "Column_width self s = gridCol_w (doc s) (Column_gridCol self)"

definition Table_notify_height_changed :: "Table \<Rightarrow> state \<Rightarrow> (error + unit) \<times> state" where
  "Table_notify_height_changed self s =
     (case Table_rows self s of (rows, s1) \<Rightarrow>
        (case for_in_RowCollection Row_height rows 0 s1 of
           (Inl e, s2) \<Rightarrow> (Inl e, s2)
         | (Inr heights, s2) \<Rightarrow>
             (let new_table_height = sum_list heights
              in (Inr (), s2\<lparr>gf_height :=
                    (gf_height s2)(Table_graphic_frame self := new_table_height)\<rparr>))))"

definition Table_notify_width_changed :: "Table \<Rightarrow> state \<Rightarrow> (error + unit) \<times> state" where
  "Table_notify_width_changed self s =
     (case Table_columns self s of (columns, s1) \<Rightarrow>
        (case for_in_ColumnCollection Column_width columns 0 s1 of
           (Inl e, s2) \<Rightarrow> (Inl e, s2)
         | (Inr widths, s2) \<Rightarrow>
             (let new_table_width = sum_list widths
              in (Inr (), s2\<lparr>gf_width :=
                    (gf_width s2)(Table_graphic_frame self := new_table_width)\<rparr>))))"

section \<open>\<^verbatim>\<open>_Column\<close> and \<^verbatim>\<open>_Row\<close>\<close>

definition ColumnCollection_notify_width_changed ::
  "ColumnCollection \<Rightarrow> state \<Rightarrow> (error + unit) \<times> state" where
  "ColumnCollection_notify_width_changed self s =
     Table_notify_width_changed (ColumnCollection_parent self) s"

definition RowCollection_notify_height_changed ::
  "RowCollection \<Rightarrow> state \<Rightarrow> (error + unit) \<times> state" where
  "RowCollection_notify_height_changed self s =
     Table_notify_height_changed (RowCollection_parent self) s"

definition Column_width_set :: "Column \<Rightarrow> int \<Rightarrow> state \<Rightarrow> (error + unit) \<times> state" where
  "Column_width_set self width s =
     ColumnCollection_notify_width_changed (Column_parent self)
       (s\<lparr>doc := (doc s)\<lparr>gridCol_w := (gridCol_w (doc s))(Column_gridCol self := width)\<rparr>\<rparr>)"

definition Row_cells :: "Row \<Rightarrow> state \<Rightarrow> CellCollection \<times> state" where
  "Row_cells self s = CellCollection_init (Row_tr self) self s"

definition Row_height_set :: "Row \<Rightarrow> int \<Rightarrow> state \<Rightarrow> (error + unit) \<times> state" where
  "Row_height_set self height s =
     RowCollection_notify_height_changed (Row_parent self)
       (s\<lparr>doc := (doc s)\<lparr>tr_h := (tr_h (doc s))(Row_tr self := height)\<rparr>\<rparr>)"

section \<open>\<^verbatim>\<open>_Cell\<close>\<close>

text \<open>
  The right-hand operand of a comparison is any object: a proxy of one of the classes of
  table.py, or a plain value.
\<close>

datatype pyobj =
    CellObj Cell
  | RowObj Row
  | ColumnObj Column
  | CellCollectionObj CellCollection
  | RowCollectionObj RowCollection
  | ColumnCollectionObj ColumnCollection
  | TableObj Table
  | ValObj pyval

text \<open>
  \<^verbatim>\<open>isinstance(other, type(self))\<close> for \<open>self\<close> a \<^verbatim>\<open>_Cell\<close>, and the attribute lookup
  \<^verbatim>\<open>other._tc\<close>, which only a \<^verbatim>\<open>_Cell\<close> answers. \<^verbatim>\<open>self._tc is other._tc\<close> compares the
  addresses of the two elements.
\<close>

fun isinstance_Cell :: "pyobj \<Rightarrow> bool" where
  "isinstance_Cell (CellObj c) = True"
| "isinstance_Cell x = False"

fun getattr_tc :: "pyobj \<Rightarrow> error + elem" where
  "getattr_tc (CellObj c) = Inr (Cell_tc c)"
| "getattr_tc x = Inl (AttributeError ''_tc'')"

definition Cell_eq :: "Cell \<Rightarrow> pyobj \<Rightarrow> error + bool" where
  "Cell_eq self other =
     (if \<not> isinstance_Cell other then Inr False
      else (case getattr_tc other of
              Inl e \<Rightarrow> Inl e
            | Inr other_tc \<Rightarrow> Inr (Cell_tc self = other_tc)))"

definition Cell_ne :: "Cell \<Rightarrow> pyobj \<Rightarrow> error + bool" where
  "Cell_ne self other =
     (if \<not> isinstance_Cell other then Inr True
      else (case getattr_tc other of
              Inl e \<Rightarrow> Inl e
            | Inr other_tc \<Rightarrow> Inr (Cell_tc self \<noteq> other_tc)))"

definition Cell_is_merge_origin :: "Cell \<Rightarrow> state \<Rightarrow> bool" where
  "Cell_is_merge_origin self s = tc_is_merge_origin (doc s) (Cell_tc self)"

definition margin_tmpl :: string where
  "margin_tmpl = ''margin value must be integer or None, got '' @ [CHR 0x27] @ ''%s'' @ [CHR 0x27]"

definition validate_margin_value :: "pyval \<Rightarrow> error + unit" where
  "validate_margin_value margin_value =
     (if \<not> is_integer margin_value \<and> margin_value \<noteq> PyNone then
        (case py_mod_format margin_tmpl margin_value of
           Inl e \<Rightarrow> Inl e
         | Inr msg \<Rightarrow> Inl (TypeError msg))
      else Inr ())"

definition Cell_margin_left :: "Cell \<Rightarrow> state \<Rightarrow> pyval" where
  "Cell_margin_left self s = tc_marL (doc s) (Cell_tc self)"

definition Cell_margin_left_set :: "Cell \<Rightarrow> pyval \<Rightarrow> state \<Rightarrow> (error + unit) \<times> state" where
  "Cell_margin_left_set self margin_left s =
     (case validate_margin_value margin_left of
        Inl e \<Rightarrow> (Inl e, s)
      | Inr u \<Rightarrow>
          (Inr (), s\<lparr>doc := (doc s)\<lparr>tc_marL := (tc_marL (doc s))(Cell_tc self := margin_left)\<rparr>\<rparr>))"

definition Cell_margin_right :: "Cell \<Rightarrow> state \<Rightarrow> pyval" where
  "Cell_margin_right self s = tc_marR (doc s) (Cell_tc self)"

definition Cell_margin_right_set :: "Cell \<Rightarrow> pyval \<Rightarrow> state \<Rightarrow> (error + unit) \<times> state" where
  "Cell_margin_right_set self margin_right s =
     (case validate_margin_value margin_right of
        Inl e \<Rightarrow> (Inl e, s)
      | Inr u \<Rightarrow>
          (Inr (), s\<lparr>doc := (doc s)\<lparr>tc_marR := (tc_marR (doc s))(Cell_tc self := margin_right)\<rparr>\<rparr>))"

definition Cell_margin_top :: "Cell \<Rightarrow> state \<Rightarrow> pyval" where
  "Cell_margin_top self s = tc_marT (doc s) (Cell_tc self)"

definition Cell_margin_top_set :: "Cell \<Rightarrow> pyval \<Rightarrow> state \<Rightarrow> (error + unit) \<times> state" where
  "Cell_margin_top_set self margin_top s =
     (case validate_margin_value margin_top of
        Inl e \<Rightarrow> (Inl e, s)
      | Inr u \<Rightarrow>
          (Inr (), s\<lparr>doc := (doc s)\<lparr>tc_marT := (tc_marT (doc s))(Cell_tc self := margin_top)\<rparr>\<rparr>))"

definition Cell_margin_bottom :: "Cell \<Rightarrow> state \<Rightarrow> pyval" where
  "Cell_margin_bottom self s = tc_marB (doc s) (Cell_tc self)"

definition Cell_margin_bottom_set :: "Cell \<Rightarrow> pyval \<Rightarrow> state \<Rightarrow> (error + unit) \<times> state" where
  "Cell_margin_bottom_set self margin_bottom s =
     (case validate_margin_value margin_bottom of
        Inl e \<Rightarrow> (Inl e, s)
      | Inr u \<Rightarrow>
          (Inr (), s\<lparr>doc := (doc s)\<lparr>tc_marB := (tc_marB (doc s))(Cell_tc self := margin_bottom)\<rparr>\<rparr>))"

definition Cell_vertical_anchor :: "Cell \<Rightarrow> state \<Rightarrow> MSO_ANCHOR option" where
  "Cell_vertical_anchor self s = tc_anchor (doc s) (Cell_tc self)"

definition Cell_vertical_anchor_set :: "Cell \<Rightarrow> MSO_ANCHOR option \<Rightarrow> state \<Rightarrow> state" where
  "Cell_vertical_anchor_set self mso_anchor_idx s =
     s\<lparr>doc := (doc s)\<lparr>tc_anchor := (tc_anchor (doc s))(Cell_tc self := mso_anchor_idx)\<rparr>\<rparr>"

section \<open>Client statements\<close>

text \<open>
  The statements a client of one table writes against the classes above, and a script of
  such statements, run until the first exception.
\<close>

datatype side = Left | Right | Top | Bottom

datatype flag = First_col | First_row | Horz_banding | Last_col | Last_row | Vert_banding

datatype call =
    Get_cell int int
  | Get_row int
  | Get_column int
  | Get_row_cell int int
  | List_rows
  | List_columns
  | List_row_cells int
  | Set_row_height int int
  | Set_column_width int int
  | Set_margin side int int pyval
  | Set_vertical_anchor int int "MSO_ANCHOR option"
  | Set_flag flag bool

definition discard :: "(error + 'a) \<times> state \<Rightarrow> (error + unit) \<times> state" where
  "discard r = (case r of (Inl e, s) \<Rightarrow> (Inl e, s) | (Inr x, s) \<Rightarrow> (Inr (), s))"

fun margin_set :: "side \<Rightarrow> Cell \<Rightarrow> pyval \<Rightarrow> state \<Rightarrow> (error + unit) \<times> state" where
  "margin_set Left = Cell_margin_left_set"
| "margin_set Right = Cell_margin_right_set"
| "margin_set Top = Cell_margin_top_set"
| "margin_set Bottom = Cell_margin_bottom_set"

fun flag_set :: "flag \<Rightarrow> Table \<Rightarrow> bool \<Rightarrow> state \<Rightarrow> state" where
  "flag_set First_col = Table_first_col_set"
| "flag_set First_row = Table_first_row_set"
| "flag_set Horz_banding = Table_horz_banding_set"
| "flag_set Last_col = Table_last_col_set"
| "flag_set Last_row = Table_last_row_set"
| "flag_set Vert_banding = Table_vert_banding_set"

fun exec :: "Table \<Rightarrow> call \<Rightarrow> state \<Rightarrow> (error + unit) \<times> state" where
  "exec t (Get_cell r c) s = discard (Table_cell t r c s)"
| "exec t (Get_row i) s =
     (case Table_rows t s of (rows, s1) \<Rightarrow> discard (RowCollection_getitem rows i s1))"
| "exec t (Get_column j) s =
     (case Table_columns t s of (columns, s1) \<Rightarrow> discard (ColumnCollection_getitem columns j s1))"
| "exec t (Get_row_cell i j) s =
     (case Table_rows t s of (rows, s1) \<Rightarrow>
        (case RowCollection_getitem rows i s1 of
           (Inl e, s2) \<Rightarrow> (Inl e, s2)
         | (Inr row, s2) \<Rightarrow>
             (case Row_cells row s2 of (cells, s3) \<Rightarrow>
                discard (CellCollection_getitem cells j s3))))"
| "exec t List_rows s =
     (case Table_rows t s of (rows, s1) \<Rightarrow> discard (RowCollection_iter rows s1))"
| "exec t List_columns s =
     (case Table_columns t s of (columns, s1) \<Rightarrow> discard (ColumnCollection_iter columns s1))"
| "exec t (List_row_cells i) s =
     (case Table_rows t s of (rows, s1) \<Rightarrow>
        (case RowCollection_getitem rows i s1 of
           (Inl e, s2) \<Rightarrow> (Inl e, s2)
         | (Inr row, s2) \<Rightarrow>
             (case Row_cells row s2 of (cells, s3) \<Rightarrow>
                (case CellCollection_iter cells s3 of (cs, s4) \<Rightarrow> (Inr (), s4)))))"
| "exec t (Set_row_height i height) s =
     (case Table_rows t s of (rows, s1) \<Rightarrow>
        (case RowCollection_getitem rows i s1 of
           (Inl e, s2) \<Rightarrow> (Inl e, s2)
         | (Inr row, s2) \<Rightarrow> Row_height_set row height s2))"
| "exec t (Set_column_width j width) s =
     (case Table_columns t s of (columns, s1) \<Rightarrow>
        (case ColumnCollection_getitem columns j s1 of
           (Inl e, s2) \<Rightarrow> (Inl e, s2)
         | (Inr col, s2) \<Rightarrow> Column_width_set col width s2))"
| "exec t (Set_margin sd r c v) s =
     (case Table_cell t r c s of
        (Inl e, s1) \<Rightarrow> (Inl e, s1)
      | (Inr cell, s1) \<Rightarrow> margin_set sd cell v s1)"
| "exec t (Set_vertical_anchor r c a) s =
     (case Table_cell t r c s of
        (Inl e, s1) \<Rightarrow> (Inl e, s1)
      | (Inr cell, s1) \<Rightarrow> (Inr (), Cell_vertical_anchor_set cell a s1))"
| "exec t (Set_flag f b) s = (Inr (), flag_set f t b s)"

fun script :: "Table \<Rightarrow> call list \<Rightarrow> state \<Rightarrow> (error + unit) \<times> state" where
  "script t [] s = (Inr (), s)"
| "script t (c # cs) s =
     (case exec t c s of
        (Inl e, s') \<Rightarrow> (Inl e, s')
      | (Inr u, s') \<Rightarrow> script t cs s')"

text \<open>
  What every method of table.py relies on: if a Table instance has a cached collection, it
  is the one its own \<^verbatim>\<open>rows\<close> / \<^verbatim>\<open>columns\<close> property built, for its own \<^verbatim>\<open>a:tbl\<close> element. A
  new instance has no cached collection.
\<close>

definition cache_ok :: "Table \<Rightarrow> state \<Rightarrow> bool" where
  "cache_ok t s =
     ((case rows_cache s (Table_oid t) of
         None \<Rightarrow> True
       | Some rows \<Rightarrow> RowCollection_tbl rows = Table_tbl t \<and> RowCollection_parent rows = t) \<and>
      (case columns_cache s (Table_oid t) of
         None \<Rightarrow> True
       | Some columns \<Rightarrow>
           ColumnCollection_tbl columns = Table_tbl t \<and> ColumnCollection_parent columns = t))"

section \<open>A sample document: a table of 2 rows and 3 columns\<close>

text \<open>
  The \<^verbatim>\<open>a:tbl\<close> element is 0, its \<^verbatim>\<open>a:tblGrid\<close> is 1 with the \<^verbatim>\<open>a:gridCol\<close> elements 2, 3, 4,
  its \<^verbatim>\<open>a:tr\<close> elements are 5 and 6; row 5 holds the cells 7, 8, 9 and row 6 the cells
  10, 11, 12. No cell is merged, so the coordinate (r, c) names cell \<open>7 + 3 r + c\<close>.
\<close>

definition sample_doc :: document where
  "sample_doc =
     \<lparr>tbl_tr_lst = (\<lambda>e. if e = 0 then [5, 6] else []),
      tbl_tblGrid = (\<lambda>e. 1),
      tblGrid_gridCol_lst = (\<lambda>e. if e = 1 then [2, 3, 4] else []),
      tr_tc_lst = (\<lambda>e. if e = 5 then [7, 8, 9] else if e = 6 then [10, 11, 12] else []),
      tbl_tc = (\<lambda>e r c. if e = 0 \<and> 0 \<le> r \<and> r < 2 \<and> 0 \<le> c \<and> c < 3
                          then Inr (nat (7 + 3 * r + c))
                          else Inl (AccessorError ''no such cell'')),
      tbl_firstCol = (\<lambda>e. False), tbl_firstRow = (\<lambda>e. True), tbl_bandRow = (\<lambda>e. True),
      tbl_lastCol = (\<lambda>e. False), tbl_lastRow = (\<lambda>e. False), tbl_bandCol = (\<lambda>e. False),
      tr_h = (\<lambda>e. 370840), gridCol_w = (\<lambda>e. 914400),
      tc_marL = (\<lambda>e. PyNone), tc_marR = (\<lambda>e. PyNone),
      tc_marT = (\<lambda>e. PyNone), tc_marB = (\<lambda>e. PyNone),
      tc_anchor = (\<lambda>e. None), tc_is_merge_origin = (\<lambda>e. False)\<rparr>"

definition sample_table :: Table where
  "sample_table = \<lparr>Table_tbl = 0, Table_graphic_frame = 0, Table_oid = 0\<rparr>"

definition sample_state :: state where
  "sample_state =
     \<lparr>doc = sample_doc, gf_height = (\<lambda>g. 741680), gf_width = (\<lambda>g. 2743200),
      rows_cache = (\<lambda>i. None), columns_cache = (\<lambda>i. None), next_oid = 1\<rparr>"

text \<open>
  Proxies of the sample table, in the order a client gets them: \<^verbatim>\<open>table.rows\<close>,
  \<^verbatim>\<open>table.columns\<close>, \<^verbatim>\<open>table.rows[1]\<close> and its \<^verbatim>\<open>cells\<close>; the state after these four
  accesses; and the same state with a graphic frame that was never brought up to date.
\<close>

definition sample_rows :: RowCollection where
  "sample_rows = \<lparr>RowCollection_tbl = 0, RowCollection_parent = sample_table, RowCollection_oid = 1\<rparr>"

definition sample_columns :: ColumnCollection where
  "sample_columns =
     \<lparr>ColumnCollection_tbl = 0, ColumnCollection_parent = sample_table, ColumnCollection_oid = 2\<rparr>"

definition sample_row :: Row where
  "sample_row = \<lparr>Row_tr = 6, Row_parent = sample_rows, Row_oid = 3\<rparr>"

definition sample_cells :: CellCollection where
  "sample_cells = \<lparr>CellCollection_tr = 6, CellCollection_parent = sample_row, CellCollection_oid = 4\<rparr>"

definition later_state :: state where
  "later_state =
     sample_state\<lparr>rows_cache := (rows_cache sample_state)(0 := Some sample_rows),
       columns_cache := (columns_cache sample_state)(0 := Some sample_columns),
       next_oid := 5\<rparr>"

definition stale_state :: state where
  "stale_state = later_state\<lparr>gf_height := (\<lambda>g. 0)\<rparr>"

section \<open>Auxiliary facts\<close>

lemmas sample_defs = sample_state_def sample_doc_def sample_table_def

lemmas sample_proxy_defs =
  sample_rows_def sample_columns_def sample_row_def sample_cells_def later_state_def

lemma Table_cell_Inr:
  "Table_cell t r c s = (Inr p, s1) \<Longrightarrow>
     tbl_tc (doc s) (Table_tbl t) r c = Inr (Cell_tc p) \<and> Cell_oid p = next_oid s \<and>
     Cell_parent p = ParentTable t \<and> s1 = s\<lparr>next_oid := Suc (next_oid s)\<rparr>"
  by (auto simp: Table_cell_def Cell_init_def alloc_def split: sum.splits)

lemma RowCollection_getitem_eq:
  "RowCollection_getitem rows idx s =
     (if idx < 0 \<or> int (RowCollection_len rows s) \<le> idx
      then (Inl (IndexError (Format ''row index [%d] out of range'' (PyInt idx))), s)
      else (Inr \<lparr>Row_tr = tbl_tr_lst (doc s) (RowCollection_tbl rows) ! nat idx,
                 Row_parent = rows, Row_oid = next_oid s\<rparr>,
            s\<lparr>next_oid := Suc (next_oid s)\<rparr>))"
  by (simp add: RowCollection_getitem_def RowCollection_len_def list_getitem_def Row_init_def
      alloc_def Let_def)

lemma for_in_RowCollection_eq:
  "for_in_RowCollection body rows i s =
     (Inr (map (\<lambda>k. body \<lparr>Row_tr = tbl_tr_lst (doc s) (RowCollection_tbl rows) ! k,
                          Row_parent = rows, Row_oid = next_oid s + (k - i)\<rparr>
                       (s\<lparr>next_oid := Suc (next_oid s + (k - i))\<rparr>))
             [i..<length (tbl_tr_lst (doc s) (RowCollection_tbl rows))]),
      s\<lparr>next_oid := next_oid s + (length (tbl_tr_lst (doc s) (RowCollection_tbl rows)) - i)\<rparr>)"
proof (induction "length (tbl_tr_lst (doc s) (RowCollection_tbl rows)) - i" arbitrary: i s)
  case 0
  then have "int (RowCollection_len rows s) \<le> int i"
    by (simp add: RowCollection_len_def)
  then show ?case
    using 0 by (subst for_in_RowCollection.simps) (simp add: RowCollection_getitem_eq)
next
  case (Suc d)
  let ?s' = "s\<lparr>next_oid := Suc (next_oid s)\<rparr>"
  from Suc.hyps(2) have lt: "i < length (tbl_tr_lst (doc s) (RowCollection_tbl rows))"
    by simp
  have d: "d = length (tbl_tr_lst (doc ?s') (RowCollection_tbl rows)) - Suc i"
    using Suc.hyps(2) by simp
  have shift: "Suc (next_oid s) + (k - Suc i) = next_oid s + (k - i)" if "Suc i \<le> k" for k
    using that by simp
  have tail: "map (\<lambda>k. body \<lparr>Row_tr = tbl_tr_lst (doc s) (RowCollection_tbl rows) ! k,
                          Row_parent = rows, Row_oid = Suc (next_oid s) + (k - Suc i)\<rparr>
                       (s\<lparr>next_oid := Suc (Suc (next_oid s) + (k - Suc i))\<rparr>))
             [Suc i..<length (tbl_tr_lst (doc s) (RowCollection_tbl rows))] =
     map (\<lambda>k. body \<lparr>Row_tr = tbl_tr_lst (doc s) (RowCollection_tbl rows) ! k,
                          Row_parent = rows, Row_oid = next_oid s + (k - i)\<rparr>
                       (s\<lparr>next_oid := Suc (next_oid s + (k - i))\<rparr>))
             [Suc i..<length (tbl_tr_lst (doc s) (RowCollection_tbl rows))]"
  proof (rule map_cong [OF refl])
    fix k
    assume "k \<in> set [Suc i..<length (tbl_tr_lst (doc s) (RowCollection_tbl rows))]"
    then have "Suc i \<le> k" by simp
    from shift [OF this]
    show "body \<lparr>Row_tr = tbl_tr_lst (doc s) (RowCollection_tbl rows) ! k,
                          Row_parent = rows, Row_oid = Suc (next_oid s) + (k - Suc i)\<rparr>
                       (s\<lparr>next_oid := Suc (Suc (next_oid s) + (k - Suc i))\<rparr>) =
          body \<lparr>Row_tr = tbl_tr_lst (doc s) (RowCollection_tbl rows) ! k,
                          Row_parent = rows, Row_oid = next_oid s + (k - i)\<rparr>
                       (s\<lparr>next_oid := Suc (next_oid s + (k - i))\<rparr>)"
      by (simp only:)
  qed
  show ?case
    using lt Suc.hyps(1) [OF d] tail
    by (subst for_in_RowCollection.simps)
      (simp add: RowCollection_getitem_eq RowCollection_len_def upt_conv_Cons)
qed

lemma row_heights_eq:
  "for_in_RowCollection Row_height rows 0 s =
     (Inr (map (tr_h (doc s)) (tbl_tr_lst (doc s) (RowCollection_tbl rows))),
      s\<lparr>next_oid := next_oid s + length (tbl_tr_lst (doc s) (RowCollection_tbl rows))\<rparr>)"
proof -
  have "map (\<lambda>k. tr_h (doc s) (tbl_tr_lst (doc s) (RowCollection_tbl rows) ! k))
          [0..<length (tbl_tr_lst (doc s) (RowCollection_tbl rows))] =
        map (tr_h (doc s)) (map (\<lambda>k. tbl_tr_lst (doc s) (RowCollection_tbl rows) ! k)
          [0..<length (tbl_tr_lst (doc s) (RowCollection_tbl rows))])"
    by simp
  also have "\<dots> = map (tr_h (doc s)) (tbl_tr_lst (doc s) (RowCollection_tbl rows))"
    by (simp only: map_nth)
  finally show ?thesis
    by (simp add: for_in_RowCollection_eq Row_height_def)
qed

lemma Table_rows_cached:
  "rows_cache s (Table_oid t) = Some rows \<Longrightarrow> Table_rows t s = (rows, s)"
  by (simp add: Table_rows_def)

lemma Table_rows_first:
  "rows_cache s (Table_oid t) = None \<Longrightarrow>
     Table_rows t s =
       (\<lparr>RowCollection_tbl = Table_tbl t, RowCollection_parent = t,
         RowCollection_oid = next_oid s\<rparr>,
        s\<lparr>next_oid := Suc (next_oid s),
          rows_cache := (rows_cache s)(Table_oid t :=
            Some \<lparr>RowCollection_tbl = Table_tbl t, RowCollection_parent = t,
                  RowCollection_oid = next_oid s\<rparr>)\<rparr>)"
  by (simp add: Table_rows_def RowCollection_init_def alloc_def)

lemma Table_rows_props:
  assumes "cache_ok t s" and "Table_rows t s = (rows, s1)"
  shows "RowCollection_tbl rows = Table_tbl t" and "RowCollection_parent rows = t"
    and "rows_cache s1 (Table_oid t) = Some rows" and "doc s1 = doc s"
    and "gf_height s1 = gf_height s" and "gf_width s1 = gf_width s"
    and "columns_cache s1 = columns_cache s" and "cache_ok t s1"
    and "next_oid s \<le> next_oid s1"
  using assms
  by (auto simp: cache_ok_def Table_rows_def RowCollection_init_def alloc_def
      split: option.splits)

lemma Table_notify_height_changed_eq:
  assumes "rows_cache s (Table_oid t) = Some rows" and "RowCollection_tbl rows = Table_tbl t"
  shows "Table_notify_height_changed t s =
     (Inr (), s\<lparr>next_oid := next_oid s + length (tbl_tr_lst (doc s) (Table_tbl t)),
               gf_height := (gf_height s)(Table_graphic_frame t :=
                  sum_list (map (tr_h (doc s)) (tbl_tr_lst (doc s) (Table_tbl t))))\<rparr>)"
  using assms
  by (simp add: Table_notify_height_changed_def Table_rows_cached row_heights_eq)

lemma Row_height_set_eq:
  assumes cached: "rows_cache s (Table_oid t) = Some rows"
    and tbl: "RowCollection_tbl rows = Table_tbl t"
    and parent: "RowCollection_parent rows = t"
    and row: "Row_parent row = rows"
  shows "Row_height_set row h s =
     (Inr (),
      s\<lparr>doc := (doc s)\<lparr>tr_h := (tr_h (doc s))(Row_tr row := h)\<rparr>,
        next_oid := next_oid s + length (tbl_tr_lst (doc s) (Table_tbl t)),
        gf_height := (gf_height s)(Table_graphic_frame t :=
          sum_list (map ((tr_h (doc s))(Row_tr row := h)) (tbl_tr_lst (doc s) (Table_tbl t))))\<rparr>)"
proof -
  let ?w = "s\<lparr>doc := (doc s)\<lparr>tr_h := (tr_h (doc s))(Row_tr row := h)\<rparr>\<rparr>"
  have "rows_cache ?w (Table_oid t) = Some rows"
    using cached by simp
  from Table_notify_height_changed_eq [OF this tbl]
  show ?thesis
    by (simp add: Row_height_set_def RowCollection_notify_height_changed_def row parent)
qed

lemma sample_cache_ok: "cache_ok sample_table sample_state"
  by (simp add: cache_ok_def sample_defs)

lemma ColumnCollection_getitem_eq:
  "ColumnCollection_getitem columns idx s =
     (if idx < 0 \<or> int (ColumnCollection_len columns s) \<le> idx
      then (Inl (IndexError (Format ''column index [%d] out of range'' (PyInt idx))), s)
      else (Inr \<lparr>Column_gridCol =
                   tblGrid_gridCol_lst (doc s)
                     (tbl_tblGrid (doc s) (ColumnCollection_tbl columns)) ! nat idx,
                 Column_parent = columns, Column_oid = next_oid s\<rparr>,
            s\<lparr>next_oid := Suc (next_oid s)\<rparr>))"
  by (simp add: ColumnCollection_getitem_def ColumnCollection_len_def list_getitem_def
      Column_init_def alloc_def Let_def)

lemma for_in_ColumnCollection_eq:
  "for_in_ColumnCollection body columns i s =
     (Inr (map (\<lambda>k. body \<lparr>Column_gridCol =
                            tblGrid_gridCol_lst (doc s)
                              (tbl_tblGrid (doc s) (ColumnCollection_tbl columns)) ! k,
                          Column_parent = columns, Column_oid = next_oid s + (k - i)\<rparr>
                       (s\<lparr>next_oid := Suc (next_oid s + (k - i))\<rparr>))
             [i..<ColumnCollection_len columns s]),
      s\<lparr>next_oid := next_oid s + (ColumnCollection_len columns s - i)\<rparr>)"
proof (induction "ColumnCollection_len columns s - i" arbitrary: i s)
  case 0
  then have "int (ColumnCollection_len columns s) \<le> int i"
    by simp
  then show ?case
    using 0 by (subst for_in_ColumnCollection.simps) (simp add: ColumnCollection_getitem_eq)
next
  case (Suc d)
  let ?s' = "s\<lparr>next_oid := Suc (next_oid s)\<rparr>"
  let ?cols = "tblGrid_gridCol_lst (doc s) (tbl_tblGrid (doc s) (ColumnCollection_tbl columns))"
  have len: "ColumnCollection_len columns ?s' = ColumnCollection_len columns s"
    by (simp add: ColumnCollection_len_def)
  from Suc.hyps(2) have lt: "i < ColumnCollection_len columns s"
    by simp
  have d: "d = ColumnCollection_len columns ?s' - Suc i"
    using Suc.hyps(2) len by simp
  have shift: "Suc (next_oid s) + (k - Suc i) = next_oid s + (k - i)" if "Suc i \<le> k" for k
    using that by simp
  have tail: "map (\<lambda>k. body \<lparr>Column_gridCol = ?cols ! k,
                          Column_parent = columns, Column_oid = Suc (next_oid s) + (k - Suc i)\<rparr>
                       (s\<lparr>next_oid := Suc (Suc (next_oid s) + (k - Suc i))\<rparr>))
             [Suc i..<ColumnCollection_len columns s] =
     map (\<lambda>k. body \<lparr>Column_gridCol = ?cols ! k,
                          Column_parent = columns, Column_oid = next_oid s + (k - i)\<rparr>
                       (s\<lparr>next_oid := Suc (next_oid s + (k - i))\<rparr>))
             [Suc i..<ColumnCollection_len columns s]"
  proof (rule map_cong [OF refl])
    fix k
    assume "k \<in> set [Suc i..<ColumnCollection_len columns s]"
    then have "Suc i \<le> k" by simp
    from shift [OF this]
    show "body \<lparr>Column_gridCol = ?cols ! k,
                          Column_parent = columns, Column_oid = Suc (next_oid s) + (k - Suc i)\<rparr>
                       (s\<lparr>next_oid := Suc (Suc (next_oid s) + (k - Suc i))\<rparr>) =
          body \<lparr>Column_gridCol = ?cols ! k,
                          Column_parent = columns, Column_oid = next_oid s + (k - i)\<rparr>
                       (s\<lparr>next_oid := Suc (next_oid s + (k - i))\<rparr>)"
      by (simp only:)
  qed
  show ?case
    using lt Suc.hyps(1) [OF d] tail len
    by (subst for_in_ColumnCollection.simps)
      (simp add: ColumnCollection_getitem_eq upt_conv_Cons)
qed

lemma column_widths_eq:
  "for_in_ColumnCollection Column_width columns 0 s =
     (Inr (map (gridCol_w (doc s))
             (tblGrid_gridCol_lst (doc s) (tbl_tblGrid (doc s) (ColumnCollection_tbl columns)))),
      s\<lparr>next_oid := next_oid s + ColumnCollection_len columns s\<rparr>)"
proof -
  let ?cols = "tblGrid_gridCol_lst (doc s) (tbl_tblGrid (doc s) (ColumnCollection_tbl columns))"
  have "map (\<lambda>k. gridCol_w (doc s) (?cols ! k)) [0..<length ?cols] =
        map (gridCol_w (doc s)) (map (\<lambda>k. ?cols ! k) [0..<length ?cols])"
    by simp
  also have "\<dots> = map (gridCol_w (doc s)) ?cols"
    by (simp only: map_nth)
  finally show ?thesis
    by (simp add: for_in_ColumnCollection_eq Column_width_def ColumnCollection_len_def)
qed

lemma Table_columns_cached:
  "columns_cache s (Table_oid t) = Some columns \<Longrightarrow> Table_columns t s = (columns, s)"
  by (simp add: Table_columns_def)

lemma Table_columns_first:
  "columns_cache s (Table_oid t) = None \<Longrightarrow>
     Table_columns t s =
       (\<lparr>ColumnCollection_tbl = Table_tbl t, ColumnCollection_parent = t,
         ColumnCollection_oid = next_oid s\<rparr>,
        s\<lparr>next_oid := Suc (next_oid s),
          columns_cache := (columns_cache s)(Table_oid t :=
            Some \<lparr>ColumnCollection_tbl = Table_tbl t, ColumnCollection_parent = t,
                  ColumnCollection_oid = next_oid s\<rparr>)\<rparr>)"
  by (simp add: Table_columns_def ColumnCollection_init_def alloc_def)

lemma Table_columns_props:
  assumes "cache_ok t s" and "Table_columns t s = (columns, s1)"
  shows "ColumnCollection_tbl columns = Table_tbl t" and "ColumnCollection_parent columns = t"
    and "columns_cache s1 (Table_oid t) = Some columns" and "doc s1 = doc s"
    and "gf_height s1 = gf_height s" and "gf_width s1 = gf_width s"
    and "rows_cache s1 = rows_cache s" and "cache_ok t s1"
    and "next_oid s \<le> next_oid s1"
  using assms
  by (auto simp: cache_ok_def Table_columns_def ColumnCollection_init_def alloc_def
      split: option.splits)

lemma Table_notify_width_changed_eq:
  assumes "columns_cache s (Table_oid t) = Some columns"
    and "ColumnCollection_tbl columns = Table_tbl t"
  shows "Table_notify_width_changed t s =
     (Inr (), s\<lparr>next_oid := next_oid s +
                 length (tblGrid_gridCol_lst (doc s) (tbl_tblGrid (doc s) (Table_tbl t))),
               gf_width := (gf_width s)(Table_graphic_frame t :=
                  sum_list (map (gridCol_w (doc s))
                    (tblGrid_gridCol_lst (doc s) (tbl_tblGrid (doc s) (Table_tbl t)))))\<rparr>)"
  using assms
  by (simp add: Table_notify_width_changed_def Table_columns_cached column_widths_eq
      ColumnCollection_len_def)

lemma Column_width_set_eq:
  assumes cached: "columns_cache s (Table_oid t) = Some columns"
    and tbl: "ColumnCollection_tbl columns = Table_tbl t"
    and parent: "ColumnCollection_parent columns = t"
    and col: "Column_parent col = columns"
  shows "Column_width_set col w s =
     (Inr (),
      s\<lparr>doc := (doc s)\<lparr>gridCol_w := (gridCol_w (doc s))(Column_gridCol col := w)\<rparr>,
        next_oid := next_oid s +
          length (tblGrid_gridCol_lst (doc s) (tbl_tblGrid (doc s) (Table_tbl t))),
        gf_width := (gf_width s)(Table_graphic_frame t :=
          sum_list (map ((gridCol_w (doc s))(Column_gridCol col := w))
            (tblGrid_gridCol_lst (doc s) (tbl_tblGrid (doc s) (Table_tbl t)))))\<rparr>)"
proof -
  let ?w = "s\<lparr>doc := (doc s)\<lparr>gridCol_w := (gridCol_w (doc s))(Column_gridCol col := w)\<rparr>\<rparr>"
  have "columns_cache ?w (Table_oid t) = Some columns"
    using cached by simp
  from Table_notify_width_changed_eq [OF this tbl]
  show ?thesis
    by (simp add: Column_width_set_def ColumnCollection_notify_width_changed_def col parent)
qed

lemma CellCollection_getitem_eq:
  "CellCollection_getitem cells idx s =
     (if idx < 0 \<or> int (CellCollection_len cells s) \<le> idx
      then (Inl (IndexError (Format ''cell index [%d] out of range'' (PyInt idx))), s)
      else (Inr \<lparr>Cell_tc = tr_tc_lst (doc s) (CellCollection_tr cells) ! nat idx,
                 Cell_parent = ParentCells cells, Cell_oid = next_oid s\<rparr>,
            s\<lparr>next_oid := Suc (next_oid s)\<rparr>))"
  by (simp add: CellCollection_getitem_def CellCollection_len_def list_getitem_def Cell_init_def
      alloc_def Let_def)

lemma CellCollection_gen_eq:
  "CellCollection_gen cells tcs s =
     (map (\<lambda>(k, tc). \<lparr>Cell_tc = tc, Cell_parent = ParentCells cells, Cell_oid = k\<rparr>)
        (enumerate (next_oid s) tcs),
      s\<lparr>next_oid := next_oid s + length tcs\<rparr>)"
  by (induction tcs arbitrary: s) (simp_all add: Cell_init_def alloc_def)

lemma CellCollection_iter_eq:
  "CellCollection_iter cells s =
     (map (\<lambda>(k, tc). \<lparr>Cell_tc = tc, Cell_parent = ParentCells cells, Cell_oid = k\<rparr>)
        (enumerate (next_oid s) (tr_tc_lst (doc s) (CellCollection_tr cells))),
      s\<lparr>next_oid := next_oid s + CellCollection_len cells s\<rparr>)"
  by (simp add: CellCollection_iter_def CellCollection_gen_eq CellCollection_len_def)

lemma RowCollection_iter_eq:
  "RowCollection_iter rows s =
     (Inr (map (\<lambda>k. \<lparr>Row_tr = tbl_tr_lst (doc s) (RowCollection_tbl rows) ! k,
                     Row_parent = rows, Row_oid = next_oid s + k\<rparr>)
             [0..<RowCollection_len rows s]),
      s\<lparr>next_oid := next_oid s + RowCollection_len rows s\<rparr>)"
  by (simp add: RowCollection_iter_def for_in_RowCollection_eq RowCollection_len_def)

lemma ColumnCollection_iter_eq:
  "ColumnCollection_iter columns s =
     (Inr (map (\<lambda>k. \<lparr>Column_gridCol =
                        tblGrid_gridCol_lst (doc s)
                          (tbl_tblGrid (doc s) (ColumnCollection_tbl columns)) ! k,
                     Column_parent = columns, Column_oid = next_oid s + k\<rparr>)
             [0..<ColumnCollection_len columns s]),
      s\<lparr>next_oid := next_oid s + ColumnCollection_len columns s\<rparr>)"
  by (simp add: ColumnCollection_iter_def for_in_ColumnCollection_eq)

lemma map_nth_upt: "map (\<lambda>k. f (xs ! k)) [0..<length xs] = map f xs"
proof -
  have "map (\<lambda>k. f (xs ! k)) [0..<length xs] = map f (map (\<lambda>k. xs ! k) [0..<length xs])"
    by simp
  then show ?thesis by (simp only: map_nth)
qed

lemma map_add_upt: "map (\<lambda>k. n + k) [0..<m] = [n..<n + m]"
  by (induction m) simp_all

lemma cells_of_enumerate:
  "map Cell_tc (map (\<lambda>(k, tc). \<lparr>Cell_tc = tc, Cell_parent = ParentCells cells,
      Cell_oid = k\<rparr>) (enumerate n tcs)) = tcs"
  "map Cell_parent (map (\<lambda>(k, tc). \<lparr>Cell_tc = tc, Cell_parent = ParentCells cells,
      Cell_oid = k\<rparr>) (enumerate n tcs)) = replicate (length tcs) (ParentCells cells)"
  by (induction tcs arbitrary: n) simp_all

lemma cell_oids_of_enumerate:
  "map Cell_oid (map (\<lambda>(k, tc). \<lparr>Cell_tc = tc, Cell_parent = ParentCells cells,
      Cell_oid = k\<rparr>) (enumerate n tcs)) = [n..<n + length tcs]"
proof (induction tcs arbitrary: n)
  case Nil
  show ?case by simp
next
  case (Cons tc tcs)
  have "[n..<n + length (tc # tcs)] = n # [Suc n..<n + length (tc # tcs)]"
    by (rule upt_conv_Cons) simp
  moreover have "n + length (tc # tcs) = Suc n + length tcs"
    by simp
  ultimately have "[n..<n + length (tc # tcs)] = n # [Suc n..<Suc n + length tcs]"
    by (simp only:)
  with Cons [of "Suc n"] show ?case by simp
qed

lemma Table_notify_height_changed_caches:
  "rows_cache (snd (Table_notify_height_changed t s)) = rows_cache (snd (Table_rows t s))"
  "columns_cache (snd (Table_notify_height_changed t s)) = columns_cache s"
  by (simp_all add: Table_notify_height_changed_def Table_rows_def RowCollection_init_def
      alloc_def row_heights_eq split: option.splits)

lemma Table_notify_width_changed_caches:
  "columns_cache (snd (Table_notify_width_changed t s)) = columns_cache (snd (Table_columns t s))"
  "rows_cache (snd (Table_notify_width_changed t s)) = rows_cache s"
  by (simp_all add: Table_notify_width_changed_def Table_columns_def ColumnCollection_init_def
      alloc_def column_widths_eq split: option.splits)

lemma Table_rows_keeps:
  "rows_cache s k = Some rc \<Longrightarrow> rows_cache (snd (Table_rows t s)) k = Some rc"
  "columns_cache (snd (Table_rows t s)) = columns_cache s"
  by (auto simp: Table_rows_def RowCollection_init_def alloc_def split: option.splits)

lemma Table_columns_keeps:
  "columns_cache s k = Some cc \<Longrightarrow> columns_cache (snd (Table_columns t s)) k = Some cc"
  "rows_cache (snd (Table_columns t s)) = rows_cache s"
  by (auto simp: Table_columns_def ColumnCollection_init_def alloc_def split: option.splits)

lemma getitem_caches:
  "rows_cache (snd (RowCollection_getitem rows i s)) = rows_cache s"
  "columns_cache (snd (RowCollection_getitem rows i s)) = columns_cache s"
  "rows_cache (snd (ColumnCollection_getitem columns i s)) = rows_cache s"
  "columns_cache (snd (ColumnCollection_getitem columns i s)) = columns_cache s"
  "rows_cache (snd (CellCollection_getitem cells i s)) = rows_cache s"
  "columns_cache (snd (CellCollection_getitem cells i s)) = columns_cache s"
  by (simp_all add: RowCollection_getitem_eq ColumnCollection_getitem_eq
      CellCollection_getitem_eq)

lemma iter_caches:
  "rows_cache (snd (RowCollection_iter rows s)) = rows_cache s"
  "columns_cache (snd (RowCollection_iter rows s)) = columns_cache s"
  "rows_cache (snd (ColumnCollection_iter columns s)) = rows_cache s"
  "columns_cache (snd (ColumnCollection_iter columns s)) = columns_cache s"
  "rows_cache (snd (CellCollection_iter cells s)) = rows_cache s"
  "columns_cache (snd (CellCollection_iter cells s)) = columns_cache s"
  by (simp_all add: RowCollection_iter_eq ColumnCollection_iter_eq CellCollection_iter_eq)

lemma snd_discard: "snd (discard r) = snd r"
  by (cases r) (auto simp: discard_def split: sum.splits)

lemma Table_cell_caches:
  "rows_cache (snd (Table_cell t r c s)) = rows_cache s"
  "columns_cache (snd (Table_cell t r c s)) = columns_cache s"
  by (simp_all add: Table_cell_def Cell_init_def alloc_def split: sum.splits)

lemma Row_cells_caches:
  "rows_cache (snd (Row_cells row s)) = rows_cache s"
  "columns_cache (snd (Row_cells row s)) = columns_cache s"
  by (simp_all add: Row_cells_def CellCollection_init_def alloc_def)

lemma margin_set_caches:
  "rows_cache (snd (margin_set sd cell v s)) = rows_cache s"
  "columns_cache (snd (margin_set sd cell v s)) = columns_cache s"
  by (cases sd; simp add: Cell_margin_left_set_def Cell_margin_right_set_def
      Cell_margin_top_set_def Cell_margin_bottom_set_def split: sum.splits)+

lemma flag_set_caches:
  "rows_cache (flag_set f t b s) = rows_cache s"
  "columns_cache (flag_set f t b s) = columns_cache s"
  by (cases f; simp add: Table_first_col_set_def Table_first_row_set_def
      Table_horz_banding_set_def Table_last_col_set_def Table_last_row_set_def
      Table_vert_banding_set_def)+

lemma Row_height_set_keeps:
  "rows_cache s k = Some rc \<Longrightarrow> rows_cache (snd (Row_height_set row h s)) k = Some rc"
  "columns_cache (snd (Row_height_set row h s)) = columns_cache s"
  by (simp_all add: Row_height_set_def RowCollection_notify_height_changed_def
      Table_notify_height_changed_caches Table_rows_keeps)

lemma Column_width_set_keeps:
  "columns_cache s k = Some cc \<Longrightarrow> columns_cache (snd (Column_width_set col w s)) k = Some cc"
  "rows_cache (snd (Column_width_set col w s)) = rows_cache s"
  by (simp_all add: Column_width_set_def ColumnCollection_notify_width_changed_def
      Table_notify_width_changed_caches Table_columns_keeps)

lemma exec_keeps_rows:
  assumes k: "rows_cache s k = Some rc"
  shows "rows_cache (snd (exec t c s)) k = Some rc"
proof -
  obtain rows s1 where r: "Table_rows t s = (rows, s1)" by (cases "Table_rows t s")
  obtain columns s1' where cl: "Table_columns t s = (columns, s1')"
    by (cases "Table_columns t s")
  from Table_rows_keeps(1) [OF k, of t] r have k1: "rows_cache s1 k = Some rc" by simp
  from Table_columns_keeps(2) [of t s] cl k have k1': "rows_cache s1' k = Some rc" by simp
  have row_step: "rows_cache (snd (case RowCollection_getitem rows i s1 of
          (Inl e, s2) \<Rightarrow> (Inl e, s2) | (Inr row, s2) \<Rightarrow> f row s2)) k = Some rc"
    if "\<And>row s2. rows_cache s2 k = Some rc \<Longrightarrow> rows_cache (snd (f row s2)) k = Some rc"
    for i and f :: "Row \<Rightarrow> state \<Rightarrow> (error + unit) \<times> state"
  proof (cases "RowCollection_getitem rows i s1")
    case (Pair res s2)
    with getitem_caches(1) [of rows i s1] k1 have "rows_cache s2 k = Some rc" by simp
    with Pair that show ?thesis by (cases res) simp_all
  qed
  show ?thesis
  proof (cases c)
    case (Get_cell r c)
    then show ?thesis using k by (simp add: snd_discard Table_cell_caches)
  next
    case (Get_row i)
    then show ?thesis using r k1 by (simp add: snd_discard getitem_caches)
  next
    case (Get_column j)
    then show ?thesis using cl k1' by (simp add: snd_discard getitem_caches)
  next
    case (Get_row_cell i j)
    have "rows_cache (snd (case Row_cells row s2 of (cells, s3) \<Rightarrow>
            discard (CellCollection_getitem cells j s3))) k = Some rc"
      if "rows_cache s2 k = Some rc" for row s2
      using that Row_cells_caches(1) [of row s2]
      by (cases "Row_cells row s2") (simp add: snd_discard getitem_caches)
    from row_step [of "\<lambda>row s2. case Row_cells row s2 of (cells, s3) \<Rightarrow>
            discard (CellCollection_getitem cells j s3)" i, OF this]
    show ?thesis using Get_row_cell r by simp
  next
    case List_rows
    then show ?thesis using r k1 by (simp add: snd_discard iter_caches)
  next
    case List_columns
    then show ?thesis using cl k1' by (simp add: snd_discard iter_caches)
  next
    case (List_row_cells i)
    have "rows_cache (snd (case Row_cells row s2 of (cells, s3) \<Rightarrow>
            (case CellCollection_iter cells s3 of (cs, s4) \<Rightarrow> (Inr (), s4)))) k = Some rc"
      if "rows_cache s2 k = Some rc" for row s2
    proof (cases "Row_cells row s2")
      case (Pair cells s3)
      with that Row_cells_caches(1) [of row s2] iter_caches(5) [of cells s3]
      show ?thesis by (cases "CellCollection_iter cells s3") simp
    qed
    from row_step [of "\<lambda>row s2. case Row_cells row s2 of (cells, s3) \<Rightarrow>
            (case CellCollection_iter cells s3 of (cs, s4) \<Rightarrow> (Inr (), s4))" i, OF this]
    show ?thesis using List_row_cells r by simp
  next
    case (Set_row_height i h)
    from row_step [of "\<lambda>row s2. Row_height_set row h s2" i, OF Row_height_set_keeps(1)]
    show ?thesis using Set_row_height r by simp
  next
    case (Set_column_width j w)
    show ?thesis
    proof (cases "ColumnCollection_getitem columns j s1'")
      case (Pair res s2)
      with getitem_caches(3) [of columns j s1'] k1' have "rows_cache s2 k = Some rc" by simp
      with Pair Set_column_width cl show ?thesis
        by (cases res) (simp_all add: Column_width_set_keeps)
    qed
  next
    case (Set_margin sd r c v)
    show ?thesis
    proof (cases "Table_cell t r c s")
      case (Pair res s2)
      with Table_cell_caches(1) [of t r c s] k have "rows_cache s2 k = Some rc" by simp
      with Pair Set_margin show ?thesis
        by (cases res) (simp_all add: margin_set_caches)
    qed
  next
    case (Set_vertical_anchor r c a)
    show ?thesis
    proof (cases "Table_cell t r c s")
      case (Pair res s2)
      with Table_cell_caches(1) [of t r c s] k have "rows_cache s2 k = Some rc" by simp
      with Pair Set_vertical_anchor show ?thesis
        by (cases res) (simp_all add: Cell_vertical_anchor_set_def)
    qed
  next
    case (Set_flag f b)
    then show ?thesis using k by (simp add: flag_set_caches)
  qed
qed

lemma exec_keeps_columns:
  assumes k: "columns_cache s k = Some cc"
  shows "columns_cache (snd (exec t c s)) k = Some cc"
proof -
  obtain rows s1 where r: "Table_rows t s = (rows, s1)" by (cases "Table_rows t s")
  obtain columns s1' where cl: "Table_columns t s = (columns, s1')"
    by (cases "Table_columns t s")
  from Table_rows_keeps(2) [of t s] r k have k1: "columns_cache s1 k = Some cc" by simp
  from Table_columns_keeps(1) [OF k, of t] cl have k1': "columns_cache s1' k = Some cc" by simp
  have row_step: "columns_cache (snd (case RowCollection_getitem rows i s1 of
          (Inl e, s2) \<Rightarrow> (Inl e, s2) | (Inr row, s2) \<Rightarrow> f row s2)) k = Some cc"
    if "\<And>row s2. columns_cache s2 k = Some cc \<Longrightarrow>
          columns_cache (snd (f row s2)) k = Some cc"
    for i and f :: "Row \<Rightarrow> state \<Rightarrow> (error + unit) \<times> state"
  proof (cases "RowCollection_getitem rows i s1")
    case (Pair res s2)
    with getitem_caches(2) [of rows i s1] k1 have "columns_cache s2 k = Some cc" by simp
    with Pair that show ?thesis by (cases res) simp_all
  qed
  show ?thesis
  proof (cases c)
    case (Get_cell r c)
    then show ?thesis using k by (simp add: snd_discard Table_cell_caches)
  next
    case (Get_row i)
    then show ?thesis using r k1 by (simp add: snd_discard getitem_caches)
  next
    case (Get_column j)
    then show ?thesis using cl k1' by (simp add: snd_discard getitem_caches)
  next
    case (Get_row_cell i j)
    have "columns_cache (snd (case Row_cells row s2 of (cells, s3) \<Rightarrow>
            discard (CellCollection_getitem cells j s3))) k = Some cc"
      if "columns_cache s2 k = Some cc" for row s2
      using that Row_cells_caches(2) [of row s2]
      by (cases "Row_cells row s2") (simp add: snd_discard getitem_caches)
    from row_step [of "\<lambda>row s2. case Row_cells row s2 of (cells, s3) \<Rightarrow>
            discard (CellCollection_getitem cells j s3)" i, OF this]
    show ?thesis using Get_row_cell r by simp
  next
    case List_rows
    then show ?thesis using r k1 by (simp add: snd_discard iter_caches)
  next
    case List_columns
    then show ?thesis using cl k1' by (simp add: snd_discard iter_caches)
  next
    case (List_row_cells i)
    have "columns_cache (snd (case Row_cells row s2 of (cells, s3) \<Rightarrow>
            (case CellCollection_iter cells s3 of (cs, s4) \<Rightarrow> (Inr (), s4)))) k = Some cc"
      if "columns_cache s2 k = Some cc" for row s2
    proof (cases "Row_cells row s2")
      case (Pair cells s3)
      with that Row_cells_caches(2) [of row s2] iter_caches(6) [of cells s3]
      show ?thesis by (cases "CellCollection_iter cells s3") simp
    qed
    from row_step [of "\<lambda>row s2. case Row_cells row s2 of (cells, s3) \<Rightarrow>
            (case CellCollection_iter cells s3 of (cs, s4) \<Rightarrow> (Inr (), s4))" i, OF this]
    show ?thesis using List_row_cells r by simp
  next
    case (Set_row_height i h)
    have "columns_cache (snd (Row_height_set row h s2)) k = Some cc"
      if "columns_cache s2 k = Some cc" for row s2
      using that by (simp add: Row_height_set_keeps)
    from row_step [of "\<lambda>row s2. Row_height_set row h s2" i, OF this]
    show ?thesis using Set_row_height r by simp
  next
    case (Set_column_width j w)
    show ?thesis
    proof (cases "ColumnCollection_getitem columns j s1'")
      case (Pair res s2)
      with getitem_caches(4) [of columns j s1'] k1' have "columns_cache s2 k = Some cc" by simp
      with Pair Set_column_width cl show ?thesis
        by (cases res) (simp_all add: Column_width_set_keeps)
    qed
  next
    case (Set_margin sd r c v)
    show ?thesis
    proof (cases "Table_cell t r c s")
      case (Pair res s2)
      with Table_cell_caches(2) [of t r c s] k have "columns_cache s2 k = Some cc" by simp
      with Pair Set_margin show ?thesis
        by (cases res) (simp_all add: margin_set_caches)
    qed
  next
    case (Set_vertical_anchor r c a)
    show ?thesis
    proof (cases "Table_cell t r c s")
      case (Pair res s2)
      with Table_cell_caches(2) [of t r c s] k have "columns_cache s2 k = Some cc" by simp
      with Pair Set_vertical_anchor show ?thesis
        by (cases res) (simp_all add: Cell_vertical_anchor_set_def)
    qed
  next
    case (Set_flag f b)
    then show ?thesis using k by (simp add: flag_set_caches)
  qed
qed

lemma script_keeps:
  "rows_cache s k = Some rc \<Longrightarrow> rows_cache (snd (script t calls s)) k = Some rc"
  "columns_cache s k = Some cc \<Longrightarrow> columns_cache (snd (script t calls s)) k = Some cc"
proof (induction calls arbitrary: s)
  case Nil
  { case 1 then show ?case by simp }
  { case 2 then show ?case by simp }
next
  case (Cons c calls)
  { case 1
    obtain res s' where e: "exec t c s = (res, s')" by (cases "exec t c s")
    with exec_keeps_rows [OF 1, of t c] have "rows_cache s' k = Some rc" by simp
    with e Cons(1) [of s'] show ?case by (cases res) simp_all }
  { case 2
    obtain res s' where e: "exec t c s = (res, s')" by (cases "exec t c s")
    with exec_keeps_columns [OF 2, of t c] have "columns_cache s' k = Some cc" by simp
    with e Cons(2) [of s'] show ?case by (cases res) simp_all }
qed

lemma exec_Set_row_height:
  assumes ok: "cache_ok t s"
    and lo: "0 \<le> i"
    and hi: "i < int (length (tbl_tr_lst (doc s) (Table_tbl t)))"
  shows "\<exists>s'. exec t (Set_row_height i h) s = (Inr (), s') \<and> cache_ok t s' \<and>
      doc s' = (doc s)\<lparr>tr_h := (tr_h (doc s))(tbl_tr_lst (doc s) (Table_tbl t) ! nat i := h)\<rparr> \<and>
      gf_height s' = (gf_height s)(Table_graphic_frame t :=
        sum_list (map (tr_h (doc s')) (tbl_tr_lst (doc s) (Table_tbl t)))) \<and>
      gf_width s' = gf_width s"
proof -
  obtain rows s1 where rows: "Table_rows t s = (rows, s1)"
    by (cases "Table_rows t s")
  note p = Table_rows_props [OF ok rows]
  let ?tr = "tbl_tr_lst (doc s) (Table_tbl t) ! nat i"
  let ?row = "\<lparr>Row_tr = ?tr, Row_parent = rows, Row_oid = next_oid s1\<rparr>"
  let ?s2 = "s1\<lparr>next_oid := Suc (next_oid s1)\<rparr>"
  have get: "RowCollection_getitem rows i s1 = (Inr ?row, ?s2)"
    using lo hi p(1) p(4) by (simp add: RowCollection_getitem_eq RowCollection_len_def)
  have cached: "rows_cache ?s2 (Table_oid t) = Some rows"
    using p(3) by simp
  have set: "Row_height_set ?row h ?s2 =
     (Inr (),
      ?s2\<lparr>doc := (doc ?s2)\<lparr>tr_h := (tr_h (doc ?s2))(Row_tr ?row := h)\<rparr>,
        next_oid := next_oid ?s2 + length (tbl_tr_lst (doc ?s2) (Table_tbl t)),
        gf_height := (gf_height ?s2)(Table_graphic_frame t :=
          sum_list (map ((tr_h (doc ?s2))(Row_tr ?row := h))
            (tbl_tr_lst (doc ?s2) (Table_tbl t))))\<rparr>)"
    by (rule Row_height_set_eq [OF cached p(1) p(2)]) simp
  have "cache_ok t (?s2\<lparr>doc := (doc ?s2)\<lparr>tr_h := (tr_h (doc ?s2))(Row_tr ?row := h)\<rparr>,
        next_oid := next_oid ?s2 + length (tbl_tr_lst (doc ?s2) (Table_tbl t)),
        gf_height := (gf_height ?s2)(Table_graphic_frame t :=
          sum_list (map ((tr_h (doc ?s2))(Row_tr ?row := h))
            (tbl_tr_lst (doc ?s2) (Table_tbl t))))\<rparr>)"
    using p(8) by (simp add: cache_ok_def)
  then show ?thesis
    using rows get set p(4) p(5) p(6) by simp
qed

lemma exec_Set_column_width:
  assumes ok: "cache_ok t s"
    and lo: "0 \<le> j"
    and hi: "j < int (length (tblGrid_gridCol_lst (doc s) (tbl_tblGrid (doc s) (Table_tbl t))))"
  shows "\<exists>s'. exec t (Set_column_width j w) s = (Inr (), s') \<and> cache_ok t s' \<and>
      doc s' = (doc s)\<lparr>gridCol_w := (gridCol_w (doc s))
        (tblGrid_gridCol_lst (doc s) (tbl_tblGrid (doc s) (Table_tbl t)) ! nat j := w)\<rparr> \<and>
      gf_width s' = (gf_width s)(Table_graphic_frame t :=
        sum_list (map (gridCol_w (doc s'))
          (tblGrid_gridCol_lst (doc s) (tbl_tblGrid (doc s) (Table_tbl t))))) \<and>
      gf_height s' = gf_height s"
proof -
  obtain columns s1 where columns: "Table_columns t s = (columns, s1)"
    by (cases "Table_columns t s")
  note p = Table_columns_props [OF ok columns]
  let ?gc = "tblGrid_gridCol_lst (doc s) (tbl_tblGrid (doc s) (Table_tbl t)) ! nat j"
  let ?col = "\<lparr>Column_gridCol = ?gc, Column_parent = columns, Column_oid = next_oid s1\<rparr>"
  let ?s2 = "s1\<lparr>next_oid := Suc (next_oid s1)\<rparr>"
  have get: "ColumnCollection_getitem columns j s1 = (Inr ?col, ?s2)"
    using lo hi p(1) p(4) by (simp add: ColumnCollection_getitem_eq ColumnCollection_len_def)
  have cached: "columns_cache ?s2 (Table_oid t) = Some columns"
    using p(3) by simp
  have set: "Column_width_set ?col w ?s2 =
     (Inr (),
      ?s2\<lparr>doc := (doc ?s2)\<lparr>gridCol_w := (gridCol_w (doc ?s2))(Column_gridCol ?col := w)\<rparr>,
        next_oid := next_oid ?s2 +
          length (tblGrid_gridCol_lst (doc ?s2) (tbl_tblGrid (doc ?s2) (Table_tbl t))),
        gf_width := (gf_width ?s2)(Table_graphic_frame t :=
          sum_list (map ((gridCol_w (doc ?s2))(Column_gridCol ?col := w))
            (tblGrid_gridCol_lst (doc ?s2) (tbl_tblGrid (doc ?s2) (Table_tbl t)))))\<rparr>)"
    by (rule Column_width_set_eq [OF cached p(1) p(2)]) simp
  have "cache_ok t (?s2\<lparr>doc := (doc ?s2)\<lparr>gridCol_w :=
          (gridCol_w (doc ?s2))(Column_gridCol ?col := w)\<rparr>,
        next_oid := next_oid ?s2 +
          length (tblGrid_gridCol_lst (doc ?s2) (tbl_tblGrid (doc ?s2) (Table_tbl t))),
        gf_width := (gf_width ?s2)(Table_graphic_frame t :=
          sum_list (map ((gridCol_w (doc ?s2))(Column_gridCol ?col := w))
            (tblGrid_gridCol_lst (doc ?s2) (tbl_tblGrid (doc ?s2) (Table_tbl t)))))\<rparr>)"
    using p(8) by (simp add: cache_ok_def)
  then show ?thesis
    using columns get set p(4) p(5) p(6) by simp
qed

lemma exec_size_call:
  assumes ok: "cache_ok t s"
    and trs: "tbl_tr_lst (doc s) (Table_tbl t) = trs"
    and gcs: "tblGrid_gridCol_lst (doc s) (tbl_tblGrid (doc s) (Table_tbl t)) = gcs"
    and valid: "(\<exists>i h. c = Set_row_height i h \<and> 0 \<le> i \<and> i < int (length trs)) \<or>
                (\<exists>j w. c = Set_column_width j w \<and> 0 \<le> j \<and> j < int (length gcs))"
  shows "\<exists>s1. exec t c s = (Inr (), s1) \<and> cache_ok t s1 \<and>
      tbl_tr_lst (doc s1) (Table_tbl t) = trs \<and>
      tblGrid_gridCol_lst (doc s1) (tbl_tblGrid (doc s1) (Table_tbl t)) = gcs \<and>
      doc s1 = (doc s)\<lparr>tr_h := tr_h (doc s1), gridCol_w := gridCol_w (doc s1)\<rparr> \<and>
      tr_h (doc s1) = (case c of Set_row_height i h \<Rightarrow> (tr_h (doc s))(trs ! nat i := h)
                       | _ \<Rightarrow> tr_h (doc s)) \<and>
      gridCol_w (doc s1) = (case c of Set_column_width j w \<Rightarrow> (gridCol_w (doc s))(gcs ! nat j := w)
                       | _ \<Rightarrow> gridCol_w (doc s)) \<and>
      gf_height s1 = (case c of Set_row_height i h \<Rightarrow>
                        (gf_height s)(Table_graphic_frame t := sum_list (map (tr_h (doc s1)) trs))
                      | _ \<Rightarrow> gf_height s) \<and>
      gf_width s1 = (case c of Set_column_width j w \<Rightarrow>
                        (gf_width s)(Table_graphic_frame t := sum_list (map (gridCol_w (doc s1)) gcs))
                      | _ \<Rightarrow> gf_width s)"
  using valid
proof
  assume "\<exists>i h. c = Set_row_height i h \<and> 0 \<le> i \<and> i < int (length trs)"
  then obtain i h where c: "c = Set_row_height i h" and i: "0 \<le> i" "i < int (length trs)"
    by blast
  from exec_Set_row_height [OF ok i(1), of h] i(2) trs
  obtain s1 where "exec t (Set_row_height i h) s = (Inr (), s1)" "cache_ok t s1"
    "doc s1 = (doc s)\<lparr>tr_h := (tr_h (doc s))(trs ! nat i := h)\<rparr>"
    "gf_height s1 = (gf_height s)(Table_graphic_frame t := sum_list (map (tr_h (doc s1)) trs))"
    "gf_width s1 = gf_width s"
    by auto
  then show ?thesis
    using c trs gcs by simp
next
  assume "\<exists>j w. c = Set_column_width j w \<and> 0 \<le> j \<and> j < int (length gcs)"
  then obtain j w where c: "c = Set_column_width j w" and j: "0 \<le> j" "j < int (length gcs)"
    by blast
  from exec_Set_column_width [OF ok j(1), of w] j(2) gcs
  obtain s1 where "exec t (Set_column_width j w) s = (Inr (), s1)" "cache_ok t s1"
    "doc s1 = (doc s)\<lparr>gridCol_w := (gridCol_w (doc s))(gcs ! nat j := w)\<rparr>"
    "gf_width s1 = (gf_width s)(Table_graphic_frame t := sum_list (map (gridCol_w (doc s1)) gcs))"
    "gf_height s1 = gf_height s"
    by auto
  then show ?thesis
    using c trs gcs by simp
qed

lemma script_sizes:
  assumes "cache_ok t s"
    and "tbl_tr_lst (doc s) (Table_tbl t) = trs"
    and "tblGrid_gridCol_lst (doc s) (tbl_tblGrid (doc s) (Table_tbl t)) = gcs"
    and "\<forall>c\<in>set calls.
           (\<exists>i h. c = Set_row_height i h \<and> 0 \<le> i \<and> i < int (length trs)) \<or>
           (\<exists>j w. c = Set_column_width j w \<and> 0 \<le> j \<and> j < int (length gcs))"
  shows "\<exists>s'. script t calls s = (Inr (), s') \<and>
      doc s' = (doc s)\<lparr>tr_h := tr_h (doc s'), gridCol_w := gridCol_w (doc s')\<rparr> \<and>
      (\<forall>e. (\<forall>i h. Set_row_height i h \<in> set calls \<longrightarrow> trs ! nat i \<noteq> e) \<longrightarrow>
           tr_h (doc s') e = tr_h (doc s) e) \<and>
      (\<forall>i h. Set_row_height i h \<in> set calls \<longrightarrow>
           (\<forall>i' h'. Set_row_height i' h' \<in> set calls \<longrightarrow> trs ! nat i' = trs ! nat i \<longrightarrow> h' = h) \<longrightarrow>
           tr_h (doc s') (trs ! nat i) = h) \<and>
      (\<forall>e. (\<forall>j w. Set_column_width j w \<in> set calls \<longrightarrow> gcs ! nat j \<noteq> e) \<longrightarrow>
           gridCol_w (doc s') e = gridCol_w (doc s) e) \<and>
      (\<forall>j w. Set_column_width j w \<in> set calls \<longrightarrow>
           (\<forall>j' w'. Set_column_width j' w' \<in> set calls \<longrightarrow> gcs ! nat j' = gcs ! nat j \<longrightarrow> w' = w) \<longrightarrow>
           gridCol_w (doc s') (gcs ! nat j) = w) \<and>
      gf_height s' =
        (if \<exists>i h. Set_row_height i h \<in> set calls
         then (gf_height s)(Table_graphic_frame t := sum_list (map (tr_h (doc s')) trs))
         else gf_height s) \<and>
      gf_width s' =
        (if \<exists>j w. Set_column_width j w \<in> set calls
         then (gf_width s)(Table_graphic_frame t := sum_list (map (gridCol_w (doc s')) gcs))
         else gf_width s)"
  using assms
proof (induction calls arbitrary: s)
  case Nil
  then show ?case by simp
next
  case (Cons c calls)
  from Cons.prems(4) have valid_c:
    "(\<exists>i h. c = Set_row_height i h \<and> 0 \<le> i \<and> i < int (length trs)) \<or>
     (\<exists>j w. c = Set_column_width j w \<and> 0 \<le> j \<and> j < int (length gcs))"
    and valid_rest: "\<forall>c\<in>set calls.
           (\<exists>i h. c = Set_row_height i h \<and> 0 \<le> i \<and> i < int (length trs)) \<or>
           (\<exists>j w. c = Set_column_width j w \<and> 0 \<le> j \<and> j < int (length gcs))"
    by simp_all
  from exec_size_call [OF Cons.prems(1-3) valid_c]
  obtain s1 where step: "exec t c s = (Inr (), s1)" and ok1: "cache_ok t s1"
    and trs1: "tbl_tr_lst (doc s1) (Table_tbl t) = trs"
    and gcs1: "tblGrid_gridCol_lst (doc s1) (tbl_tblGrid (doc s1) (Table_tbl t)) = gcs"
    and doc1: "doc s1 = (doc s)\<lparr>tr_h := tr_h (doc s1), gridCol_w := gridCol_w (doc s1)\<rparr>"
    and h1: "tr_h (doc s1) = (case c of Set_row_height i h \<Rightarrow> (tr_h (doc s))(trs ! nat i := h)
                       | _ \<Rightarrow> tr_h (doc s))"
    and w1: "gridCol_w (doc s1) =
               (case c of Set_column_width j w \<Rightarrow> (gridCol_w (doc s))(gcs ! nat j := w)
                       | _ \<Rightarrow> gridCol_w (doc s))"
    and gh1: "gf_height s1 = (case c of Set_row_height i h \<Rightarrow>
                        (gf_height s)(Table_graphic_frame t := sum_list (map (tr_h (doc s1)) trs))
                      | _ \<Rightarrow> gf_height s)"
    and gw1: "gf_width s1 = (case c of Set_column_width j w \<Rightarrow>
                        (gf_width s)(Table_graphic_frame t := sum_list (map (gridCol_w (doc s1)) gcs))
                      | _ \<Rightarrow> gf_width s)"
    by blast
  from Cons.IH [OF ok1 trs1 gcs1 valid_rest]
  obtain s' where run: "script t calls s1 = (Inr (), s')"
    and doc': "doc s' = (doc s1)\<lparr>tr_h := tr_h (doc s'), gridCol_w := gridCol_w (doc s')\<rparr>"
    and a1: "\<And>e. (\<forall>i h. Set_row_height i h \<in> set calls \<longrightarrow> trs ! nat i \<noteq> e) \<Longrightarrow>
           tr_h (doc s') e = tr_h (doc s1) e"
    and a2: "\<And>i h. Set_row_height i h \<in> set calls \<Longrightarrow>
           (\<forall>i' h'. Set_row_height i' h' \<in> set calls \<longrightarrow> trs ! nat i' = trs ! nat i \<longrightarrow> h' = h) \<Longrightarrow>
           tr_h (doc s') (trs ! nat i) = h"
    and b1: "\<And>e. (\<forall>j w. Set_column_width j w \<in> set calls \<longrightarrow> gcs ! nat j \<noteq> e) \<Longrightarrow>
           gridCol_w (doc s') e = gridCol_w (doc s1) e"
    and b2: "\<And>j w. Set_column_width j w \<in> set calls \<Longrightarrow>
           (\<forall>j' w'. Set_column_width j' w' \<in> set calls \<longrightarrow> gcs ! nat j' = gcs ! nat j \<longrightarrow> w' = w) \<Longrightarrow>
           gridCol_w (doc s') (gcs ! nat j) = w"
    and gh: "gf_height s' =
        (if \<exists>i h. Set_row_height i h \<in> set calls
         then (gf_height s1)(Table_graphic_frame t := sum_list (map (tr_h (doc s')) trs))
         else gf_height s1)"
    and gw: "gf_width s' =
        (if \<exists>j w. Set_column_width j w \<in> set calls
         then (gf_width s1)(Table_graphic_frame t := sum_list (map (gridCol_w (doc s')) gcs))
         else gf_width s1)"
    by blast
  have r0: "script t (c # calls) s = (Inr (), s')"
    using step run by simp
  have r1: "doc s' = (doc s)\<lparr>tr_h := tr_h (doc s'), gridCol_w := gridCol_w (doc s')\<rparr>"
    by (subst doc', subst doc1) simp
  have r2: "tr_h (doc s') e = tr_h (doc s) e"
    if "\<forall>i h. Set_row_height i h \<in> set (c # calls) \<longrightarrow> trs ! nat i \<noteq> e" for e
  proof -
    from that have "tr_h (doc s') e = tr_h (doc s1) e" by (intro a1) simp
    moreover from that have "tr_h (doc s1) e = tr_h (doc s) e"
      unfolding h1 by (cases c) auto
    ultimately show ?thesis by simp
  qed
  have r3: "tr_h (doc s') (trs ! nat i) = h"
    if mem: "Set_row_height i h \<in> set (c # calls)"
      and uniq: "\<forall>i' h'. Set_row_height i' h' \<in> set (c # calls) \<longrightarrow>
                   trs ! nat i' = trs ! nat i \<longrightarrow> h' = h" for i h
  proof (cases "\<exists>i' h'. Set_row_height i' h' \<in> set calls \<and> trs ! nat i' = trs ! nat i")
    case True
    then obtain i' h' where m': "Set_row_height i' h' \<in> set calls"
      and e': "trs ! nat i' = trs ! nat i" by blast
    from uniq m' e' have "h' = h" by simp
    moreover have "tr_h (doc s') (trs ! nat i') = h'"
    proof (rule a2 [OF m'], intro allI impI)
      fix i'' h''
      assume "Set_row_height i'' h'' \<in> set calls" "trs ! nat i'' = trs ! nat i'"
      with uniq e' have "h'' = h" by simp
      with \<open>h' = h\<close> show "h'' = h'" by simp
    qed
    ultimately show ?thesis using e' by simp
  next
    case False
    then have "tr_h (doc s') (trs ! nat i) = tr_h (doc s1) (trs ! nat i)"
      by (intro a1) blast
    moreover from False mem have "c = Set_row_height i h" by auto
    ultimately show ?thesis unfolding h1 by simp
  qed
  have r4: "gridCol_w (doc s') e = gridCol_w (doc s) e"
    if "\<forall>j w. Set_column_width j w \<in> set (c # calls) \<longrightarrow> gcs ! nat j \<noteq> e" for e
  proof -
    from that have "gridCol_w (doc s') e = gridCol_w (doc s1) e" by (intro b1) simp
    moreover from that have "gridCol_w (doc s1) e = gridCol_w (doc s) e"
      unfolding w1 by (cases c) auto
    ultimately show ?thesis by simp
  qed
  have r5: "gridCol_w (doc s') (gcs ! nat j) = w"
    if mem: "Set_column_width j w \<in> set (c # calls)"
      and uniq: "\<forall>j' w'. Set_column_width j' w' \<in> set (c # calls) \<longrightarrow>
                   gcs ! nat j' = gcs ! nat j \<longrightarrow> w' = w" for j w
  proof (cases "\<exists>j' w'. Set_column_width j' w' \<in> set calls \<and> gcs ! nat j' = gcs ! nat j")
    case True
    then obtain j' w' where m': "Set_column_width j' w' \<in> set calls"
      and e': "gcs ! nat j' = gcs ! nat j" by blast
    from uniq m' e' have "w' = w" by simp
    moreover have "gridCol_w (doc s') (gcs ! nat j') = w'"
    proof (rule b2 [OF m'], intro allI impI)
      fix j'' w''
      assume "Set_column_width j'' w'' \<in> set calls" "gcs ! nat j'' = gcs ! nat j'"
      with uniq e' have "w'' = w" by simp
      with \<open>w' = w\<close> show "w'' = w'" by simp
    qed
    ultimately show ?thesis using e' by simp
  next
    case False
    then have "gridCol_w (doc s') (gcs ! nat j) = gridCol_w (doc s1) (gcs ! nat j)"
      by (intro b1) blast
    moreover from False mem have "c = Set_column_width j w" by auto
    ultimately show ?thesis unfolding w1 by simp
  qed
  have r6: "gf_height s' =
        (if \<exists>i h. Set_row_height i h \<in> set (c # calls)
         then (gf_height s)(Table_graphic_frame t := sum_list (map (tr_h (doc s')) trs))
         else gf_height s)"
  proof (cases "\<exists>i h. Set_row_height i h \<in> set calls")
    case True
    with gh gh1 show ?thesis by (cases c) auto
  next
    case False
    then have same: "tr_h (doc s') e = tr_h (doc s1) e" for e
      by (intro a1) blast
    then have "tr_h (doc s') = tr_h (doc s1)" by (rule ext)
    with False gh gh1 show ?thesis by (cases c) auto
  qed
  have r7: "gf_width s' =
        (if \<exists>j w. Set_column_width j w \<in> set (c # calls)
         then (gf_width s)(Table_graphic_frame t := sum_list (map (gridCol_w (doc s')) gcs))
         else gf_width s)"
  proof (cases "\<exists>j w. Set_column_width j w \<in> set calls")
    case True
    with gw gw1 show ?thesis by (cases c) auto
  next
    case False
    then have same: "gridCol_w (doc s') e = gridCol_w (doc s1) e" for e
      by (intro b1) blast
    then have "gridCol_w (doc s') = gridCol_w (doc s1)" by (rule ext)
    with False gw gw1 show ?thesis by (cases c) auto
  qed
  from r0 r1 r2 r3 r4 r5 r6 r7 show ?case
    by (intro exI [of _ s'] conjI allI impI) blast+
qed

lemma later_cache_ok: "cache_ok sample_table later_state" "cache_ok sample_table stale_state"
  by (simp_all add: cache_ok_def stale_state_def sample_defs sample_proxy_defs)

lemma Table_init_cache_ok:
  "Table_init tbl graphic_frame s = (t, s') \<Longrightarrow> cache_ok t s'"
  by (auto simp: Table_init_def alloc_def cache_ok_def)

lemma Row_height_set_cache_ok:
  assumes ok: "cache_ok t s" and parent: "RowCollection_parent (Row_parent row) = t"
  shows "cache_ok t (snd (Row_height_set row h s))"
proof -
  let ?w = "s\<lparr>doc := (doc s)\<lparr>tr_h := (tr_h (doc s))(Row_tr row := h)\<rparr>\<rparr>"
  have w: "cache_ok t ?w"
    using ok by (simp add: cache_ok_def)
  obtain rows s1 where r: "Table_rows t ?w = (rows, s1)" by (cases "Table_rows t ?w")
  from Table_rows_props(8) [OF w r] have "cache_ok t s1" .
  moreover have "rows_cache (snd (Row_height_set row h s)) = rows_cache s1"
    "columns_cache (snd (Row_height_set row h s)) = columns_cache s1"
    using r Table_rows_props(7) [OF w r]
    by (simp_all add: Row_height_set_def RowCollection_notify_height_changed_def parent
        Table_notify_height_changed_caches)
  ultimately show ?thesis by (simp add: cache_ok_def)
qed

lemma Column_width_set_cache_ok:
  assumes ok: "cache_ok t s" and parent: "ColumnCollection_parent (Column_parent col) = t"
  shows "cache_ok t (snd (Column_width_set col w s))"
proof -
  let ?w = "s\<lparr>doc := (doc s)\<lparr>gridCol_w := (gridCol_w (doc s))(Column_gridCol col := w)\<rparr>\<rparr>"
  have w: "cache_ok t ?w"
    using ok by (simp add: cache_ok_def)
  obtain columns s1 where r: "Table_columns t ?w = (columns, s1)"
    by (cases "Table_columns t ?w")
  from Table_columns_props(8) [OF w r] have "cache_ok t s1" .
  moreover have "columns_cache (snd (Column_width_set col w s)) = columns_cache s1"
    "rows_cache (snd (Column_width_set col w s)) = rows_cache s1"
    using r Table_columns_props(7) [OF w r]
    by (simp_all add: Column_width_set_def ColumnCollection_notify_width_changed_def parent
        Table_notify_width_changed_caches)
  ultimately show ?thesis by (simp add: cache_ok_def)
qed

lemma exec_cache_ok:
  assumes ok: "cache_ok t s"
  shows "cache_ok t (snd (exec t c s))"
proof -
  obtain rows s1 where r: "Table_rows t s = (rows, s1)" by (cases "Table_rows t s")
  obtain columns s1' where cl: "Table_columns t s = (columns, s1')"
    by (cases "Table_columns t s")
  note pr = Table_rows_props [OF ok r]
  note pc = Table_columns_props [OF ok cl]
  have row_step: "cache_ok t (snd (case RowCollection_getitem rows i s1 of
          (Inl e, s2) \<Rightarrow> (Inl e, s2) | (Inr row, s2) \<Rightarrow> f row s2))"
    if "\<And>row s2. cache_ok t s2 \<Longrightarrow> Row_parent row = rows \<Longrightarrow> cache_ok t (snd (f row s2))"
    for i and f :: "Row \<Rightarrow> state \<Rightarrow> (error + unit) \<times> state"
  proof (cases "RowCollection_getitem rows i s1")
    case (Pair res s2)
    with getitem_caches(1,2) [of rows i s1] pr(8) have ok2: "cache_ok t s2"
      by (simp add: cache_ok_def)
    show ?thesis
    proof (cases res)
      case (Inl e)
      with Pair ok2 show ?thesis by simp
    next
      case (Inr row)
      with Pair have "Row_parent row = rows"
        by (auto simp: RowCollection_getitem_eq split: if_splits)
      with Pair Inr that [OF ok2] show ?thesis by simp
    qed
  qed
  have cells_step: "cache_ok t (snd (case Row_cells row s2 of (cells, s3) \<Rightarrow> g cells s3))"
    if "cache_ok t s2" "\<And>cells s3. rows_cache (snd (g cells s3)) = rows_cache s3"
      "\<And>cells s3. columns_cache (snd (g cells s3)) = columns_cache s3"
    for row s2 and g :: "CellCollection \<Rightarrow> state \<Rightarrow> (error + unit) \<times> state"
    using that Row_cells_caches [of row s2]
    by (cases "Row_cells row s2") (simp add: cache_ok_def)
  show ?thesis
  proof (cases c)
    case (Get_cell r c)
    then show ?thesis using ok by (simp add: snd_discard Table_cell_caches cache_ok_def)
  next
    case (Get_row i)
    then show ?thesis using r pr(8) by (simp add: snd_discard getitem_caches cache_ok_def)
  next
    case (Get_column j)
    then show ?thesis using cl pc(8) by (simp add: snd_discard getitem_caches cache_ok_def)
  next
    case (Get_row_cell i j)
    have "cache_ok t (snd (case Row_cells row s2 of (cells, s3) \<Rightarrow>
            discard (CellCollection_getitem cells j s3)))"
      if "cache_ok t s2" for row s2
      by (rule cells_step [OF that]) (simp_all add: snd_discard getitem_caches)
    from row_step [of "\<lambda>row s2. case Row_cells row s2 of (cells, s3) \<Rightarrow>
            discard (CellCollection_getitem cells j s3)" i, OF this]
    show ?thesis using Get_row_cell r by simp
  next
    case List_rows
    then show ?thesis using r pr(8) by (simp add: snd_discard iter_caches cache_ok_def)
  next
    case List_columns
    then show ?thesis using cl pc(8) by (simp add: snd_discard iter_caches cache_ok_def)
  next
    case (List_row_cells i)
    have "cache_ok t (snd (case Row_cells row s2 of (cells, s3) \<Rightarrow>
            (case CellCollection_iter cells s3 of (cs, s4) \<Rightarrow> (Inr (), s4))))"
      if "cache_ok t s2" for row s2
    proof (cases "Row_cells row s2")
      case (Pair cells s3)
      with that Row_cells_caches [of row s2] iter_caches(5,6) [of cells s3]
      show ?thesis
        by (cases "CellCollection_iter cells s3") (simp add: cache_ok_def)
    qed
    from row_step [of "\<lambda>row s2. case Row_cells row s2 of (cells, s3) \<Rightarrow>
            (case CellCollection_iter cells s3 of (cs, s4) \<Rightarrow> (Inr (), s4))" i, OF this]
    show ?thesis using List_row_cells r by simp
  next
    case (Set_row_height i h)
    have "cache_ok t (snd (Row_height_set row h s2))"
      if "cache_ok t s2" "Row_parent row = rows" for row s2
      using that pr(2) by (intro Row_height_set_cache_ok) simp_all
    from row_step [of "\<lambda>row s2. Row_height_set row h s2" i, OF this]
    show ?thesis using Set_row_height r by simp
  next
    case (Set_column_width j w)
    show ?thesis
    proof (cases "ColumnCollection_getitem columns j s1'")
      case (Pair res s2)
      with getitem_caches(3,4) [of columns j s1'] pc(8) have ok2: "cache_ok t s2"
        by (simp add: cache_ok_def)
      show ?thesis
      proof (cases res)
        case (Inl e)
        with Pair ok2 Set_column_width cl show ?thesis by simp
      next
        case (Inr col)
        with Pair have "Column_parent col = columns"
          by (auto simp: ColumnCollection_getitem_eq split: if_splits)
        with pc(2) have "ColumnCollection_parent (Column_parent col) = t" by simp
        from Column_width_set_cache_ok [OF ok2 this, of w] Pair Inr Set_column_width cl
        show ?thesis by simp
      qed
    qed
  next
    case (Set_margin sd r c v)
    show ?thesis
    proof (cases "Table_cell t r c s")
      case (Pair res s2)
      with Table_cell_caches [of t r c s] ok have "cache_ok t s2"
        by (simp add: cache_ok_def)
      with Pair Set_margin show ?thesis
        by (cases res) (simp_all add: margin_set_caches cache_ok_def)
    qed
  next
    case (Set_vertical_anchor r c a)
    show ?thesis
    proof (cases "Table_cell t r c s")
      case (Pair res s2)
      with Table_cell_caches [of t r c s] ok have "cache_ok t s2"
        by (simp add: cache_ok_def)
      with Pair Set_vertical_anchor show ?thesis
        by (cases res) (simp_all add: Cell_vertical_anchor_set_def cache_ok_def)
    qed
  next
    case (Set_flag f b)
    then show ?thesis using ok by (simp add: flag_set_caches cache_ok_def)
  qed
qed

lemma script_cache_ok:
  "cache_ok t s \<Longrightarrow> cache_ok t (snd (script t calls s))"
proof (induction calls arbitrary: s)
  case Nil
  then show ?case by simp
next
  case (Cons c calls)
  obtain res s' where e: "exec t c s = (res, s')" by (cases "exec t c s")
  with exec_cache_ok [OF Cons.prems, of c] have "cache_ok t s'" by simp
  with e Cons.IH [of s'] show ?case by (cases res) simp_all
qed

section \<open>Row heights and the height of the graphic frame\<close>

text \<open>
  Claim C1. For a table whose cached collections are its own, a valid row index \<open>i\<close> and
  an integer \<open>h\<close>, the statement \<^verbatim>\<open>table.rows[i].height = h\<close> returns without an exception; the
  setter is the row collection's \<^verbatim>\<open>notify_height_changed\<close> on the state after the write,
  which is the table's \<^verbatim>\<open>notify_height_changed\<close> on that state; and in the state the setter
  returns, the row reads \<open>h\<close> and the height of the graphic frame is the sum of the heights
  of the rows of the table, both over the \<^verbatim>\<open>a:tr\<close> elements and as
  \<^verbatim>\<open>sum([row.height for row in table.rows])\<close>.
\<close>

theorem row_height_set_aggregate:
  assumes ok: "cache_ok t s"
    and lo: "0 \<le> i"
    and hi: "i < int (length (tbl_tr_lst (doc s) (Table_tbl t)))"
  shows "\<exists>rows s1 row s2 s3 heights s4.
      Table_rows t s = (rows, s1) \<and>
      RowCollection_getitem rows i s1 = (Inr row, s2) \<and>
      Row_height_set row h s2 = (Inr (), s3) \<and>
      exec t (Set_row_height i h) s = (Inr (), s3) \<and>
      Row_height_set row h s2 =
        RowCollection_notify_height_changed (Row_parent row)
          (s2\<lparr>doc := (doc s2)\<lparr>tr_h := (tr_h (doc s2))(Row_tr row := h)\<rparr>\<rparr>) \<and>
      RowCollection_notify_height_changed (Row_parent row)
          (s2\<lparr>doc := (doc s2)\<lparr>tr_h := (tr_h (doc s2))(Row_tr row := h)\<rparr>\<rparr>) =
        Table_notify_height_changed t
          (s2\<lparr>doc := (doc s2)\<lparr>tr_h := (tr_h (doc s2))(Row_tr row := h)\<rparr>\<rparr>) \<and>
      Row_height row s3 = h \<and>
      gf_height s3 (Table_graphic_frame t) =
        sum_list (map (tr_h (doc s3)) (tbl_tr_lst (doc s3) (Table_tbl t))) \<and>
      for_in_RowCollection Row_height rows 0 s3 = (Inr heights, s4) \<and>
      gf_height s3 (Table_graphic_frame t) = sum_list heights"
proof -
  obtain rows s1 where rows: "Table_rows t s = (rows, s1)"
    by (cases "Table_rows t s")
  note p = Table_rows_props [OF ok rows]
  let ?tr = "tbl_tr_lst (doc s) (Table_tbl t) ! nat i"
  let ?row = "\<lparr>Row_tr = ?tr, Row_parent = rows, Row_oid = next_oid s1\<rparr>"
  let ?s2 = "s1\<lparr>next_oid := Suc (next_oid s1)\<rparr>"
  have get: "RowCollection_getitem rows i s1 = (Inr ?row, ?s2)"
    using lo hi p(1) p(4) by (simp add: RowCollection_getitem_eq RowCollection_len_def)
  have cached: "rows_cache ?s2 (Table_oid t) = Some rows"
    using p(3) by simp
  have set: "Row_height_set ?row h ?s2 =
     (Inr (),
      ?s2\<lparr>doc := (doc ?s2)\<lparr>tr_h := (tr_h (doc ?s2))(Row_tr ?row := h)\<rparr>,
        next_oid := next_oid ?s2 + length (tbl_tr_lst (doc ?s2) (Table_tbl t)),
        gf_height := (gf_height ?s2)(Table_graphic_frame t :=
          sum_list (map ((tr_h (doc ?s2))(Row_tr ?row := h))
            (tbl_tr_lst (doc ?s2) (Table_tbl t))))\<rparr>)"
    by (rule Row_height_set_eq [OF cached p(1) p(2)]) simp
  show ?thesis
    using rows get set p(1) p(2)
    by (simp add: Row_height_set_def RowCollection_notify_height_changed_def Row_height_def
        row_heights_eq)
qed

text \<open>
  On the sample table, \<^verbatim>\<open>table.rows[1].height = 200\<close> leaves the frame 371040 high.
\<close>

theorem row_height_set_aggregate_witness:
  "cache_ok sample_table sample_state \<and> (0::int) \<le> 1 \<and>
   (1::int) < int (length (tbl_tr_lst (doc sample_state) (Table_tbl sample_table))) \<and>
   (\<exists>s3. exec sample_table (Set_row_height 1 200) sample_state = (Inr (), s3) \<and>
      tr_h (doc s3) 5 = 370840 \<and> tr_h (doc s3) 6 = 200 \<and>
      gf_height sample_state 0 = 741680 \<and> gf_height s3 0 = 371040)"
proof -
  have hi: "(1::int) < int (length (tbl_tr_lst (doc sample_state) (Table_tbl sample_table)))"
    by (simp add: sample_defs)
  from row_height_set_aggregate [OF sample_cache_ok _ hi, of 200]
  obtain s3 where run: "exec sample_table (Set_row_height 1 200) sample_state = (Inr (), s3)"
    by auto
  have "exec sample_table (Set_row_height 1 200) sample_state =
    (Inr (), sample_state\<lparr>doc := sample_doc\<lparr>tr_h := (tr_h sample_doc)(6 := 200)\<rparr>,
       next_oid := 5, gf_height := (gf_height sample_state)(0 := 371040),
       rows_cache := (rows_cache sample_state)(0 :=
         Some \<lparr>RowCollection_tbl = 0, RowCollection_parent = sample_table,
           RowCollection_oid = 1\<rparr>)\<rparr>)"
    by (simp add: sample_defs Table_rows_def RowCollection_init_def alloc_def
        RowCollection_getitem_eq RowCollection_len_def Row_height_set_def
        RowCollection_notify_height_changed_def Table_notify_height_changed_def row_heights_eq)
  with run have "tr_h (doc s3) 5 = 370840 \<and> tr_h (doc s3) 6 = 200 \<and> gf_height s3 0 = 371040"
    by (auto simp: sample_defs)
  with run hi sample_cache_ok show ?thesis
    by (simp add: sample_defs)
qed

section \<open>What a height assignment changes\<close>

text \<open>
  Claim C9. Getting \<^verbatim>\<open>table.rows[i]\<close> changes neither the document nor a graphic frame. The
  setter \<^verbatim>\<open>row.height = h\<close> then changes the \<^verbatim>\<open>h\<close> attribute of the row's element and the
  height of the table's graphic frame, which is written with the sum of the row heights
  whatever \<open>h\<close> and the former height are; every other row height, every column width,
  every cell attribute, every table flag, the child sequences, the width of the frame,
  the other frames and both cached collections are as before. The only other change is
  that the interpreter has handed out one identity per row proxy built for the sum.
\<close>

theorem row_height_set_frame:
  assumes ok: "cache_ok t s"
    and lo: "0 \<le> i"
    and hi: "i < int (length (tbl_tr_lst (doc s) (Table_tbl t)))"
  shows "\<exists>rows s1 row s2 s3.
      Table_rows t s = (rows, s1) \<and>
      RowCollection_getitem rows i s1 = (Inr row, s2) \<and>
      Row_tr row = tbl_tr_lst (doc s) (Table_tbl t) ! nat i \<and>
      doc s2 = doc s \<and> gf_height s2 = gf_height s \<and> gf_width s2 = gf_width s \<and>
      Row_height_set row h s2 = (Inr (), s3) \<and>
      s3 = s2\<lparr>doc := (doc s2)\<lparr>tr_h := (tr_h (doc s2))(Row_tr row := h)\<rparr>,
              gf_height := (gf_height s2)(Table_graphic_frame t :=
                sum_list (map ((tr_h (doc s2))(Row_tr row := h))
                  (tbl_tr_lst (doc s2) (Table_tbl t)))),
              next_oid := next_oid s2 + length (tbl_tr_lst (doc s2) (Table_tbl t))\<rparr> \<and>
      tr_h (doc s3) (Row_tr row) = h \<and>
      gf_height s3 (Table_graphic_frame t) =
        sum_list (map (tr_h (doc s3)) (tbl_tr_lst (doc s3) (Table_tbl t))) \<and>
      (\<forall>e. e \<noteq> Row_tr row \<longrightarrow> tr_h (doc s3) e = tr_h (doc s2) e) \<and>
      (\<forall>g. g \<noteq> Table_graphic_frame t \<longrightarrow> gf_height s3 g = gf_height s2 g) \<and>
      gf_width s3 = gf_width s2 \<and>
      gridCol_w (doc s3) = gridCol_w (doc s2) \<and>
      tc_marL (doc s3) = tc_marL (doc s2) \<and> tc_marR (doc s3) = tc_marR (doc s2) \<and>
      tc_marT (doc s3) = tc_marT (doc s2) \<and> tc_marB (doc s3) = tc_marB (doc s2) \<and>
      tc_anchor (doc s3) = tc_anchor (doc s2) \<and>
      tc_is_merge_origin (doc s3) = tc_is_merge_origin (doc s2) \<and>
      tbl_firstCol (doc s3) = tbl_firstCol (doc s2) \<and>
      tbl_firstRow (doc s3) = tbl_firstRow (doc s2) \<and>
      tbl_bandRow (doc s3) = tbl_bandRow (doc s2) \<and>
      tbl_lastCol (doc s3) = tbl_lastCol (doc s2) \<and>
      tbl_lastRow (doc s3) = tbl_lastRow (doc s2) \<and>
      tbl_bandCol (doc s3) = tbl_bandCol (doc s2) \<and>
      tbl_tr_lst (doc s3) = tbl_tr_lst (doc s2) \<and>
      tbl_tblGrid (doc s3) = tbl_tblGrid (doc s2) \<and>
      tblGrid_gridCol_lst (doc s3) = tblGrid_gridCol_lst (doc s2) \<and>
      tr_tc_lst (doc s3) = tr_tc_lst (doc s2) \<and>
      tbl_tc (doc s3) = tbl_tc (doc s2) \<and>
      rows_cache s3 = rows_cache s2 \<and> columns_cache s3 = columns_cache s2"
proof -
  obtain rows s1 where rows: "Table_rows t s = (rows, s1)"
    by (cases "Table_rows t s")
  note p = Table_rows_props [OF ok rows]
  let ?tr = "tbl_tr_lst (doc s) (Table_tbl t) ! nat i"
  let ?row = "\<lparr>Row_tr = ?tr, Row_parent = rows, Row_oid = next_oid s1\<rparr>"
  let ?s2 = "s1\<lparr>next_oid := Suc (next_oid s1)\<rparr>"
  have get: "RowCollection_getitem rows i s1 = (Inr ?row, ?s2)"
    using lo hi p(1) p(4) by (simp add: RowCollection_getitem_eq RowCollection_len_def)
  have cached: "rows_cache ?s2 (Table_oid t) = Some rows"
    using p(3) by simp
  have set: "Row_height_set ?row h ?s2 =
     (Inr (),
      ?s2\<lparr>doc := (doc ?s2)\<lparr>tr_h := (tr_h (doc ?s2))(Row_tr ?row := h)\<rparr>,
        next_oid := next_oid ?s2 + length (tbl_tr_lst (doc ?s2) (Table_tbl t)),
        gf_height := (gf_height ?s2)(Table_graphic_frame t :=
          sum_list (map ((tr_h (doc ?s2))(Row_tr ?row := h))
            (tbl_tr_lst (doc ?s2) (Table_tbl t))))\<rparr>)"
    by (rule Row_height_set_eq [OF cached p(1) p(2)]) simp
  show ?thesis
    using rows get set p(4) p(5) p(6)
    by simp
qed

text \<open>
  On the sample table with a frame that is not up to date, assigning row 1 the height it already has leaves the document as it is and brings the frame to 741680.
\<close>

theorem row_height_set_frame_witness:
  "cache_ok sample_table stale_state \<and> (0::int) \<le> 1 \<and>
   (1::int) < int (length (tbl_tr_lst (doc stale_state) (Table_tbl sample_table))) \<and>
   (\<exists>rows s1 row s2 s3.
      Table_rows sample_table stale_state = (rows, s1) \<and>
      RowCollection_getitem rows 1 s1 = (Inr row, s2) \<and>
      Row_tr row = 6 \<and> tr_h (doc s2) 6 = 370840 \<and> gf_height s2 0 = 0 \<and>
      Row_height_set row 370840 s2 = (Inr (), s3) \<and>
      doc s3 = doc s2 \<and> gf_height s3 0 = 741680 \<and> gf_height s3 1 = 0 \<and>
      gf_width s3 = gf_width s2 \<and> rows_cache s3 = rows_cache s2 \<and>
      columns_cache s3 = columns_cache s2 \<and> next_oid s2 = 6 \<and> next_oid s3 = 8)"
proof -
  have hi: "(1::int) < int (length (tbl_tr_lst (doc stale_state) (Table_tbl sample_table)))"
    by (simp add: stale_state_def sample_defs sample_proxy_defs)
  from row_height_set_frame [OF later_cache_ok(2) _ hi, of 370840]
  obtain rows s1 row s2 s3 where
    a: "Table_rows sample_table stale_state = (rows, s1)"
    and b: "RowCollection_getitem rows 1 s1 = (Inr row, s2)"
    and c: "Row_tr row = tbl_tr_lst (doc stale_state) (Table_tbl sample_table) ! nat 1"
    and d: "doc s2 = doc stale_state" "gf_height s2 = gf_height stale_state"
    and e: "Row_height_set row 370840 s2 = (Inr (), s3)"
    and f: "s3 = s2\<lparr>doc := (doc s2)\<lparr>tr_h := (tr_h (doc s2))(Row_tr row := 370840)\<rparr>,
              gf_height := (gf_height s2)(Table_graphic_frame sample_table :=
                sum_list (map ((tr_h (doc s2))(Row_tr row := 370840))
                  (tbl_tr_lst (doc s2) (Table_tbl sample_table)))),
              next_oid := next_oid s2 + length (tbl_tr_lst (doc s2) (Table_tbl sample_table))\<rparr>"
    by auto
  have "rows_cache stale_state (Table_oid sample_table) = Some sample_rows"
    by (simp add: stale_state_def sample_defs sample_proxy_defs)
  from Table_rows_cached [OF this] a have s1: "s1 = stale_state" and rs: "rows = sample_rows"
    by simp_all
  have "RowCollection_len sample_rows stale_state = 2" "next_oid stale_state = 5"
    by (simp_all add: RowCollection_len_def stale_state_def sample_defs sample_proxy_defs)
  with b have n2: "next_oid s2 = 6"
    unfolding s1 rs by (auto simp: RowCollection_getitem_eq split: if_splits)
  have tr: "Row_tr row = 6"
    using c by (simp add: stale_state_def sample_defs sample_proxy_defs)
  have same: "(doc s2)\<lparr>tr_h := (tr_h (doc s2))(Row_tr row := 370840)\<rparr> = doc s2"
    unfolding d tr by (simp add: stale_state_def sample_defs sample_proxy_defs fun_eq_iff)
  have vals: "tr_h (doc s2) 6 = 370840" "gf_height s2 0 = 0"
    "tbl_tr_lst (doc s2) (Table_tbl sample_table) = [5, 6]"
    "Table_graphic_frame sample_table = 0"
    unfolding d by (simp_all add: stale_state_def sample_defs sample_proxy_defs)
  have tr_h_all: "tr_h (doc s2) = (\<lambda>e. 370840)"
    unfolding d by (simp add: stale_state_def sample_defs sample_proxy_defs)
  have g3: "gf_height s3 0 = 741680" "gf_height s3 1 = 0"
    unfolding f by (simp_all add: vals tr tr_h_all d(2) stale_state_def)
  have rest: "doc s3 = doc s2" "gf_width s3 = gf_width s2" "rows_cache s3 = rows_cache s2"
    "columns_cache s3 = columns_cache s2" "next_oid s3 = 8"
    using same n2 unfolding f vals by simp_all
  from a b tr vals(1,2) e g3 rest n2 hi later_cache_ok(2) show ?thesis
    by (intro conjI exI [of _ rows] exI [of _ s1] exI [of _ row] exI [of _ s2] exI [of _ s3])
      simp_all
qed

section \<open>Column widths and the width of the graphic frame\<close>

text \<open>
  Claim C2. For a table whose cached collections are its own, a valid column index \<open>j\<close>
  and an integer \<open>w\<close>, the statement \<^verbatim>\<open>table.columns[j].width = w\<close> returns without an
  exception, through the column collection's and then the table's \<^verbatim>\<open>notify_width_changed\<close>;
  in the state the setter returns, the column reads \<open>w\<close> and the width of the graphic
  frame is the sum of the widths of the columns of the table.
\<close>

theorem column_width_set_aggregate:
  assumes ok: "cache_ok t s"
    and lo: "0 \<le> j"
    and hi: "j < int (length (tblGrid_gridCol_lst (doc s) (tbl_tblGrid (doc s) (Table_tbl t))))"
  shows "\<exists>columns s1 col s2 s3 widths s4.
      Table_columns t s = (columns, s1) \<and>
      ColumnCollection_getitem columns j s1 = (Inr col, s2) \<and>
      Column_width_set col w s2 = (Inr (), s3) \<and>
      exec t (Set_column_width j w) s = (Inr (), s3) \<and>
      Column_width_set col w s2 =
        ColumnCollection_notify_width_changed (Column_parent col)
          (s2\<lparr>doc := (doc s2)\<lparr>gridCol_w := (gridCol_w (doc s2))(Column_gridCol col := w)\<rparr>\<rparr>) \<and>
      ColumnCollection_notify_width_changed (Column_parent col)
          (s2\<lparr>doc := (doc s2)\<lparr>gridCol_w := (gridCol_w (doc s2))(Column_gridCol col := w)\<rparr>\<rparr>) =
        Table_notify_width_changed t
          (s2\<lparr>doc := (doc s2)\<lparr>gridCol_w := (gridCol_w (doc s2))(Column_gridCol col := w)\<rparr>\<rparr>) \<and>
      Column_width col s3 = w \<and>
      gf_width s3 (Table_graphic_frame t) =
        sum_list (map (gridCol_w (doc s3))
          (tblGrid_gridCol_lst (doc s3) (tbl_tblGrid (doc s3) (Table_tbl t)))) \<and>
      for_in_ColumnCollection Column_width columns 0 s3 = (Inr widths, s4) \<and>
      gf_width s3 (Table_graphic_frame t) = sum_list widths"
proof -
  obtain columns s1 where columns: "Table_columns t s = (columns, s1)"
    by (cases "Table_columns t s")
  note p = Table_columns_props [OF ok columns]
  let ?gc = "tblGrid_gridCol_lst (doc s) (tbl_tblGrid (doc s) (Table_tbl t)) ! nat j"
  let ?col = "\<lparr>Column_gridCol = ?gc, Column_parent = columns, Column_oid = next_oid s1\<rparr>"
  let ?s2 = "s1\<lparr>next_oid := Suc (next_oid s1)\<rparr>"
  have get: "ColumnCollection_getitem columns j s1 = (Inr ?col, ?s2)"
    using lo hi p(1) p(4) by (simp add: ColumnCollection_getitem_eq ColumnCollection_len_def)
  have cached: "columns_cache ?s2 (Table_oid t) = Some columns"
    using p(3) by simp
  have set: "Column_width_set ?col w ?s2 =
     (Inr (),
      ?s2\<lparr>doc := (doc ?s2)\<lparr>gridCol_w := (gridCol_w (doc ?s2))(Column_gridCol ?col := w)\<rparr>,
        next_oid := next_oid ?s2 +
          length (tblGrid_gridCol_lst (doc ?s2) (tbl_tblGrid (doc ?s2) (Table_tbl t))),
        gf_width := (gf_width ?s2)(Table_graphic_frame t :=
          sum_list (map ((gridCol_w (doc ?s2))(Column_gridCol ?col := w))
            (tblGrid_gridCol_lst (doc ?s2) (tbl_tblGrid (doc ?s2) (Table_tbl t)))))\<rparr>)"
    by (rule Column_width_set_eq [OF cached p(1) p(2)]) simp
  show ?thesis
    using columns get set p(1) p(2)
    by (simp add: Column_width_set_def ColumnCollection_notify_width_changed_def
        Column_width_def column_widths_eq)
qed

text \<open>
  On the sample table, \<^verbatim>\<open>table.columns[2].width = 30\<close> leaves the frame 1828830 wide.
\<close>

theorem column_width_set_aggregate_witness:
  "cache_ok sample_table sample_state \<and> (0::int) \<le> 2 \<and>
   (2::int) < int (length (tblGrid_gridCol_lst (doc sample_state)
                 (tbl_tblGrid (doc sample_state) (Table_tbl sample_table)))) \<and>
   (\<exists>s3. exec sample_table (Set_column_width 2 30) sample_state = (Inr (), s3) \<and>
      gridCol_w (doc s3) 2 = 914400 \<and> gridCol_w (doc s3) 3 = 914400 \<and>
      gridCol_w (doc s3) 4 = 30 \<and>
      gf_width sample_state 0 = 2743200 \<and> gf_width s3 0 = 1828830)"
proof -
  have hi: "(2::int) < int (length (tblGrid_gridCol_lst (doc sample_state)
                 (tbl_tblGrid (doc sample_state) (Table_tbl sample_table))))"
    by (simp add: sample_defs)
  from column_width_set_aggregate [OF sample_cache_ok _ hi, of 30]
  obtain s3 where run: "exec sample_table (Set_column_width 2 30) sample_state = (Inr (), s3)"
    by auto
  have "exec sample_table (Set_column_width 2 30) sample_state =
    (Inr (), sample_state\<lparr>doc := sample_doc\<lparr>gridCol_w := (gridCol_w sample_doc)(4 := 30)\<rparr>,
       next_oid := 6, gf_width := (gf_width sample_state)(0 := 1828830),
       columns_cache := (columns_cache sample_state)(0 :=
         Some \<lparr>ColumnCollection_tbl = 0, ColumnCollection_parent = sample_table,
           ColumnCollection_oid = 1\<rparr>)\<rparr>)"
    by (simp add: sample_defs Table_columns_def ColumnCollection_init_def alloc_def
        ColumnCollection_getitem_eq ColumnCollection_len_def Column_width_set_def
        ColumnCollection_notify_width_changed_def Table_notify_width_changed_def column_widths_eq)
  with run have "gridCol_w (doc s3) 2 = 914400 \<and> gridCol_w (doc s3) 3 = 914400 \<and>
      gridCol_w (doc s3) 4 = 30 \<and> gf_width s3 0 = 1828830"
    by (auto simp: sample_defs)
  with run hi sample_cache_ok show ?thesis
    by (simp add: sample_defs)
qed

section \<open>Five assignments in any order\<close>

text \<open>
  Claim C6. On a table of two rows and three columns (distinct elements), a script that
  assigns the heights 100 and 200 to rows 0 and 1 and the widths 10, 20 and 30 to columns
  0, 1 and 2, each once and in any order, runs without an exception; afterwards the graphic
  frame is 300 high and 60 wide, and the document and the frames are the same whatever the
  order: the initial ones with these five attributes and the frame's two sizes replaced.
\<close>

theorem sizes_end_to_end_any_order:
  assumes ok: "cache_ok t s"
    and rows: "tbl_tr_lst (doc s) (Table_tbl t) = [r1, r2]" "r1 \<noteq> r2"
    and cols: "tblGrid_gridCol_lst (doc s) (tbl_tblGrid (doc s) (Table_tbl t)) = [c1, c2, c3]"
      "c1 \<noteq> c2" "c1 \<noteq> c3" "c2 \<noteq> c3"
    and order: "mset calls =
      {#Set_row_height 0 100, Set_row_height 1 200,
        Set_column_width 0 10, Set_column_width 1 20, Set_column_width 2 30#}"
  shows "\<exists>s'. script t calls s = (Inr (), s') \<and>
      gf_height s' (Table_graphic_frame t) = 300 \<and>
      gf_width s' (Table_graphic_frame t) = 60 \<and>
      doc s' = (doc s)\<lparr>tr_h := (tr_h (doc s))(r1 := 100, r2 := 200),
                       gridCol_w := (gridCol_w (doc s))(c1 := 10, c2 := 20, c3 := 30)\<rparr> \<and>
      gf_height s' = (gf_height s)(Table_graphic_frame t := 300) \<and>
      gf_width s' = (gf_width s)(Table_graphic_frame t := 60)"
proof -
  from order have "set_mset (mset calls) =
      set_mset {#Set_row_height 0 100, Set_row_height 1 200,
        Set_column_width 0 10, Set_column_width 1 20, Set_column_width 2 30#}"
    by (simp only:)
  then have set: "set calls = {Set_row_height 0 100, Set_row_height 1 200,
        Set_column_width 0 10, Set_column_width 1 20, Set_column_width 2 30}"
    by simp
  have valid: "\<forall>c\<in>set calls.
           (\<exists>i h. c = Set_row_height i h \<and> 0 \<le> i \<and> i < int (length [r1, r2])) \<or>
           (\<exists>j w. c = Set_column_width j w \<and> 0 \<le> j \<and> j < int (length [c1, c2, c3]))"
    unfolding set by simp
  from script_sizes [OF ok rows(1) cols(1) valid]
  obtain s' where run: "script t calls s = (Inr (), s')"
    and doc': "doc s' = (doc s)\<lparr>tr_h := tr_h (doc s'), gridCol_w := gridCol_w (doc s')\<rparr>"
    and a1: "\<And>e. (\<forall>i h. Set_row_height i h \<in> set calls \<longrightarrow> [r1, r2] ! nat i \<noteq> e) \<Longrightarrow>
           tr_h (doc s') e = tr_h (doc s) e"
    and a2: "\<And>i h. Set_row_height i h \<in> set calls \<Longrightarrow>
           (\<forall>i' h'. Set_row_height i' h' \<in> set calls \<longrightarrow>
              [r1, r2] ! nat i' = [r1, r2] ! nat i \<longrightarrow> h' = h) \<Longrightarrow>
           tr_h (doc s') ([r1, r2] ! nat i) = h"
    and b1: "\<And>e. (\<forall>j w. Set_column_width j w \<in> set calls \<longrightarrow> [c1, c2, c3] ! nat j \<noteq> e) \<Longrightarrow>
           gridCol_w (doc s') e = gridCol_w (doc s) e"
    and b2: "\<And>j w. Set_column_width j w \<in> set calls \<Longrightarrow>
           (\<forall>j' w'. Set_column_width j' w' \<in> set calls \<longrightarrow>
              [c1, c2, c3] ! nat j' = [c1, c2, c3] ! nat j \<longrightarrow> w' = w) \<Longrightarrow>
           gridCol_w (doc s') ([c1, c2, c3] ! nat j) = w"
    and gh: "gf_height s' =
        (if \<exists>i h. Set_row_height i h \<in> set calls
         then (gf_height s)(Table_graphic_frame t := sum_list (map (tr_h (doc s')) [r1, r2]))
         else gf_height s)"
    and gw: "gf_width s' =
        (if \<exists>j w. Set_column_width j w \<in> set calls
         then (gf_width s)(Table_graphic_frame t := sum_list (map (gridCol_w (doc s')) [c1, c2, c3]))
         else gf_width s)"
    by blast
  have h1: "tr_h (doc s') r1 = 100"
    using a2 [of 0 100] rows(2) unfolding set by auto
  have h2: "tr_h (doc s') r2 = 200"
    using a2 [of 1 200] rows(2) unfolding set by auto
  have w1: "gridCol_w (doc s') c1 = 10"
    using b2 [of 0 10] cols(2-4) unfolding set by auto
  have w2: "gridCol_w (doc s') c2 = 20"
    using b2 [of 1 20] cols(2-4) unfolding set by auto
  have w3: "gridCol_w (doc s') c3 = 30"
    using b2 [of 2 30] cols(2-4) unfolding set by (auto simp: numeral_2_eq_2)
  have hs: "tr_h (doc s') = (tr_h (doc s))(r1 := 100, r2 := 200)"
  proof (rule ext)
    fix e
    show "tr_h (doc s') e = ((tr_h (doc s))(r1 := 100, r2 := 200)) e"
    proof (cases "e = r1 \<or> e = r2")
      case True
      with h1 h2 rows(2) show ?thesis by auto
    next
      case False
      then have "tr_h (doc s') e = tr_h (doc s) e"
        by (intro a1) (auto simp: set)
      with False show ?thesis by simp
    qed
  qed
  have ws: "gridCol_w (doc s') = (gridCol_w (doc s))(c1 := 10, c2 := 20, c3 := 30)"
  proof (rule ext)
    fix e
    show "gridCol_w (doc s') e = ((gridCol_w (doc s))(c1 := 10, c2 := 20, c3 := 30)) e"
    proof (cases "e = c1 \<or> e = c2 \<or> e = c3")
      case True
      with w1 w2 w3 cols(2-4) show ?thesis by auto
    next
      case False
      then have "gridCol_w (doc s') e = gridCol_w (doc s) e"
        by (intro b1) (auto simp: set numeral_2_eq_2)
      with False show ?thesis by simp
    qed
  qed
  have "Set_row_height 0 100 \<in> set calls" "Set_column_width 0 10 \<in> set calls"
    unfolding set by simp_all
  then have some: "\<exists>i h. Set_row_height i h \<in> set calls"
    "\<exists>j w. Set_column_width j w \<in> set calls"
    by blast+
  have gh': "gf_height s' = (gf_height s)(Table_graphic_frame t := 300)"
    using gh h1 h2 some(1) by simp
  have gw': "gf_width s' = (gf_width s)(Table_graphic_frame t := 60)"
    using gw w1 w2 w3 some(2) by simp
  from doc' have "doc s' = (doc s)\<lparr>tr_h := (tr_h (doc s))(r1 := 100, r2 := 200),
                       gridCol_w := (gridCol_w (doc s))(c1 := 10, c2 := 20, c3 := 30)\<rparr>"
    unfolding hs ws .
  with run gh' gw' show ?thesis by simp
qed

text \<open>
  Two of the orders on the sample table.
\<close>

theorem sizes_end_to_end_any_order_witness:
  "cache_ok sample_table sample_state \<and>
   tbl_tr_lst (doc sample_state) (Table_tbl sample_table) = [5, 6] \<and> (5::nat) \<noteq> 6 \<and>
   tblGrid_gridCol_lst (doc sample_state)
     (tbl_tblGrid (doc sample_state) (Table_tbl sample_table)) = [2, 3, 4] \<and>
   (2::nat) \<noteq> 3 \<and> (2::nat) \<noteq> 4 \<and> (3::nat) \<noteq> 4 \<and>
   mset [Set_column_width 2 30, Set_row_height 1 200, Set_column_width 0 10,
         Set_row_height 0 100, Set_column_width 1 20] =
     {#Set_row_height 0 100, Set_row_height 1 200,
       Set_column_width 0 10, Set_column_width 1 20, Set_column_width 2 30#} \<and>
   mset [Set_row_height 0 100, Set_row_height 1 200, Set_column_width 0 10,
         Set_column_width 1 20, Set_column_width 2 30] =
     {#Set_row_height 0 100, Set_row_height 1 200,
       Set_column_width 0 10, Set_column_width 1 20, Set_column_width 2 30#} \<and>
   (\<exists>s' s''.
      script sample_table [Set_column_width 2 30, Set_row_height 1 200, Set_column_width 0 10,
         Set_row_height 0 100, Set_column_width 1 20] sample_state = (Inr (), s') \<and>
      script sample_table [Set_row_height 0 100, Set_row_height 1 200, Set_column_width 0 10,
         Set_column_width 1 20, Set_column_width 2 30] sample_state = (Inr (), s'') \<and>
      gf_height s' 0 = 300 \<and> gf_width s' 0 = 60 \<and>
      gf_height s'' 0 = 300 \<and> gf_width s'' 0 = 60 \<and>
      doc s' = doc s'' \<and> gf_height s' = gf_height s'' \<and> gf_width s' = gf_width s'' \<and>
      tr_h (doc s') 5 = 100 \<and> tr_h (doc s') 6 = 200 \<and>
      gridCol_w (doc s') 2 = 10 \<and> gridCol_w (doc s') 3 = 20 \<and> gridCol_w (doc s') 4 = 30)"
proof -
  let ?one = "[Set_column_width 2 30, Set_row_height 1 200, Set_column_width 0 10,
         Set_row_height 0 100, Set_column_width 1 20]"
  let ?two = "[Set_row_height 0 100, Set_row_height 1 200, Set_column_width 0 10,
         Set_column_width 1 20, Set_column_width 2 30]"
  have rows: "tbl_tr_lst (doc sample_state) (Table_tbl sample_table) = [5, 6]"
    and cols: "tblGrid_gridCol_lst (doc sample_state)
     (tbl_tblGrid (doc sample_state) (Table_tbl sample_table)) = [2, 3, 4]"
    and frame: "Table_graphic_frame sample_table = 0"
    by (simp_all add: sample_defs)
  have m1: "mset ?one = {#Set_row_height 0 100, Set_row_height 1 200,
       Set_column_width 0 10, Set_column_width 1 20, Set_column_width 2 30#}"
    and m2: "mset ?two = {#Set_row_height 0 100, Set_row_height 1 200,
       Set_column_width 0 10, Set_column_width 1 20, Set_column_width 2 30#}"
    by simp_all
  note inst = sizes_end_to_end_any_order [OF sample_cache_ok rows _ cols]
  from inst [of ?one] m1 frame
  obtain s' where one: "script sample_table ?one sample_state = (Inr (), s')"
    "gf_height s' 0 = 300" "gf_width s' 0 = 60"
    "doc s' = (doc sample_state)\<lparr>tr_h := (tr_h (doc sample_state))(5 := 100, 6 := 200),
        gridCol_w := (gridCol_w (doc sample_state))(2 := 10, 3 := 20, 4 := 30)\<rparr>"
    "gf_height s' = (gf_height sample_state)(0 := 300)"
    "gf_width s' = (gf_width sample_state)(0 := 60)"
    by auto
  from inst [of ?two] m2 frame
  obtain s'' where two: "script sample_table ?two sample_state = (Inr (), s'')"
    "gf_height s'' 0 = 300" "gf_width s'' 0 = 60"
    "doc s'' = (doc sample_state)\<lparr>tr_h := (tr_h (doc sample_state))(5 := 100, 6 := 200),
        gridCol_w := (gridCol_w (doc sample_state))(2 := 10, 3 := 20, 4 := 30)\<rparr>"
    "gf_height s'' = (gf_height sample_state)(0 := 300)"
    "gf_width s'' = (gf_width sample_state)(0 := 60)"
    by auto
  have vals: "tr_h (doc s') 5 = 100 \<and> tr_h (doc s') 6 = 200 \<and>
      gridCol_w (doc s') 2 = 10 \<and> gridCol_w (doc s') 3 = 20 \<and> gridCol_w (doc s') 4 = 30"
    unfolding one(4) by simp
  from one two vals have "\<exists>s' s''.
      script sample_table ?one sample_state = (Inr (), s') \<and>
      script sample_table ?two sample_state = (Inr (), s'') \<and>
      gf_height s' 0 = 300 \<and> gf_width s' 0 = 60 \<and>
      gf_height s'' 0 = 300 \<and> gf_width s'' 0 = 60 \<and>
      doc s' = doc s'' \<and> gf_height s' = gf_height s'' \<and> gf_width s' = gf_width s'' \<and>
      tr_h (doc s') 5 = 100 \<and> tr_h (doc s') 6 = 200 \<and>
      gridCol_w (doc s') 2 = 10 \<and> gridCol_w (doc s') 3 = 20 \<and> gridCol_w (doc s') 4 = 30"
    by (intro exI [of _ s'] exI [of _ s'']) simp
  with sample_cache_ok rows cols m1 m2 show ?thesis
    by simp
qed

section \<open>The cached collections\<close>

text \<open>
  Claim C7. The first access of \<^verbatim>\<open>table.rows\<close> on an instance with no cached collection
  builds a \<^verbatim>\<open>_RowCollection\<close> (a new identity is handed out); the access after it, and the
  access after any script of statements on any table (whether the script ends or raises),
  returns that same object and changes nothing, so nothing is built again. The same holds
  for \<^verbatim>\<open>table.columns\<close>.
\<close>

theorem collections_cached:
  "(\<exists>rows s1. Table_rows t s = (rows, s1) \<and>
      (rows_cache s (Table_oid t) = None \<longrightarrow>
         rows = \<lparr>RowCollection_tbl = Table_tbl t, RowCollection_parent = t,
                  RowCollection_oid = next_oid s\<rparr> \<and>
         next_oid s1 = Suc (next_oid s)) \<and>
      Table_rows t s1 = (rows, s1) \<and>
      (\<forall>t' calls r s2. script t' calls s1 = (r, s2) \<longrightarrow> Table_rows t s2 = (rows, s2))) \<and>
   (\<exists>columns s1. Table_columns t s = (columns, s1) \<and>
      (columns_cache s (Table_oid t) = None \<longrightarrow>
         columns = \<lparr>ColumnCollection_tbl = Table_tbl t, ColumnCollection_parent = t,
                     ColumnCollection_oid = next_oid s\<rparr> \<and>
         next_oid s1 = Suc (next_oid s)) \<and>
      Table_columns t s1 = (columns, s1) \<and>
      (\<forall>t' calls r s2. script t' calls s1 = (r, s2) \<longrightarrow>
         Table_columns t s2 = (columns, s2)))"
proof (intro conjI)
  obtain rows s1 where r: "Table_rows t s = (rows, s1)" by (cases "Table_rows t s")
  then have cached: "rows_cache s1 (Table_oid t) = Some rows"
    by (auto simp: Table_rows_def RowCollection_init_def alloc_def split: option.splits)
  have later: "Table_rows t s2 = (rows, s2)" if "script t' calls s1 = (r, s2)" for t' calls r s2
    using script_keeps(1) [OF cached, of t' calls] that by (simp add: Table_rows_cached)
  have first: "rows = \<lparr>RowCollection_tbl = Table_tbl t, RowCollection_parent = t,
                  RowCollection_oid = next_oid s\<rparr> \<and> next_oid s1 = Suc (next_oid s)"
    if "rows_cache s (Table_oid t) = None"
    using Table_rows_first [OF that] r by auto
  from r first later Table_rows_cached [OF cached]
  show "\<exists>rows s1. Table_rows t s = (rows, s1) \<and>
      (rows_cache s (Table_oid t) = None \<longrightarrow>
         rows = \<lparr>RowCollection_tbl = Table_tbl t, RowCollection_parent = t,
                  RowCollection_oid = next_oid s\<rparr> \<and>
         next_oid s1 = Suc (next_oid s)) \<and>
      Table_rows t s1 = (rows, s1) \<and>
      (\<forall>t' calls r s2. script t' calls s1 = (r, s2) \<longrightarrow> Table_rows t s2 = (rows, s2))"
    by (intro exI [of _ rows] exI [of _ s1]) auto
next
  obtain columns s1 where r: "Table_columns t s = (columns, s1)"
    by (cases "Table_columns t s")
  then have cached: "columns_cache s1 (Table_oid t) = Some columns"
    by (auto simp: Table_columns_def ColumnCollection_init_def alloc_def split: option.splits)
  have later: "Table_columns t s2 = (columns, s2)"
    if "script t' calls s1 = (r, s2)" for t' calls r s2
    using script_keeps(2) [OF cached, of t' calls] that by (simp add: Table_columns_cached)
  have first: "columns = \<lparr>ColumnCollection_tbl = Table_tbl t, ColumnCollection_parent = t,
                  ColumnCollection_oid = next_oid s\<rparr> \<and> next_oid s1 = Suc (next_oid s)"
    if "columns_cache s (Table_oid t) = None"
    using Table_columns_first [OF that] r by auto
  from r first later Table_columns_cached [OF cached]
  show "\<exists>columns s1. Table_columns t s = (columns, s1) \<and>
      (columns_cache s (Table_oid t) = None \<longrightarrow>
         columns = \<lparr>ColumnCollection_tbl = Table_tbl t, ColumnCollection_parent = t,
                     ColumnCollection_oid = next_oid s\<rparr> \<and>
         next_oid s1 = Suc (next_oid s)) \<and>
      Table_columns t s1 = (columns, s1) \<and>
      (\<forall>t' calls r s2. script t' calls s1 = (r, s2) \<longrightarrow>
         Table_columns t s2 = (columns, s2))"
    by (intro exI [of _ columns] exI [of _ s1]) auto
qed

text \<open>
  On the sample table, with a script that raises at its second statement.
\<close>

theorem collections_cached_witness:
  "(\<exists>rows s1 r s2. Table_rows sample_table sample_state = (rows, s1) \<and>
      rows_cache sample_state (Table_oid sample_table) = None \<and>
      rows = \<lparr>RowCollection_tbl = 0, RowCollection_parent = sample_table,
               RowCollection_oid = 1\<rparr> \<and>
      next_oid sample_state = 1 \<and> next_oid s1 = 2 \<and>
      Table_rows sample_table s1 = (rows, s1) \<and>
      script sample_table [Set_row_height 0 100, Get_row 7, Set_flag First_col True] s1 = (r, s2) \<and>
      Table_rows sample_table s2 = (rows, s2)) \<and>
   (\<exists>columns s1 r s2. Table_columns sample_table sample_state = (columns, s1) \<and>
      columns_cache sample_state (Table_oid sample_table) = None \<and>
      columns = \<lparr>ColumnCollection_tbl = 0, ColumnCollection_parent = sample_table,
                  ColumnCollection_oid = 1\<rparr> \<and>
      next_oid sample_state = 1 \<and> next_oid s1 = 2 \<and>
      Table_columns sample_table s1 = (columns, s1) \<and>
      script sample_table [Set_column_width 0 10, List_rows] s1 = (r, s2) \<and>
      Table_columns sample_table s2 = (columns, s2))"
proof -
  have empty: "rows_cache sample_state (Table_oid sample_table) = None"
    "columns_cache sample_state (Table_oid sample_table) = None"
    "next_oid sample_state = 1" "Table_tbl sample_table = 0"
    by (simp_all add: sample_defs)
  from collections_cached [of sample_table sample_state] empty
  obtain rows s1 columns s1' where
    r: "Table_rows sample_table sample_state = (rows, s1)"
      "rows = \<lparr>RowCollection_tbl = 0, RowCollection_parent = sample_table,
               RowCollection_oid = 1\<rparr>" "next_oid s1 = 2"
      "Table_rows sample_table s1 = (rows, s1)"
      "\<And>t' calls r s2. script t' calls s1 = (r, s2) \<Longrightarrow> Table_rows sample_table s2 = (rows, s2)"
    and c: "Table_columns sample_table sample_state = (columns, s1')"
      "columns = \<lparr>ColumnCollection_tbl = 0, ColumnCollection_parent = sample_table,
                  ColumnCollection_oid = 1\<rparr>" "next_oid s1' = 2"
      "Table_columns sample_table s1' = (columns, s1')"
      "\<And>t' calls r s2. script t' calls s1' = (r, s2) \<Longrightarrow>
         Table_columns sample_table s2 = (columns, s2)"
    by auto
  obtain r1 s2 where run1:
    "script sample_table [Set_row_height 0 100, Get_row 7, Set_flag First_col True] s1 = (r1, s2)"
    by (cases "script sample_table [Set_row_height 0 100, Get_row 7, Set_flag First_col True] s1")
  obtain r2 s2' where run2:
    "script sample_table [Set_column_width 0 10, List_rows] s1' = (r2, s2')"
    by (cases "script sample_table [Set_column_width 0 10, List_rows] s1'")
  from r(1-4) r(5) [OF run1] run1 empty
  have A: "\<exists>rows s1 r s2. Table_rows sample_table sample_state = (rows, s1) \<and>
      rows_cache sample_state (Table_oid sample_table) = None \<and>
      rows = \<lparr>RowCollection_tbl = 0, RowCollection_parent = sample_table,
               RowCollection_oid = 1\<rparr> \<and>
      next_oid sample_state = 1 \<and> next_oid s1 = 2 \<and>
      Table_rows sample_table s1 = (rows, s1) \<and>
      script sample_table [Set_row_height 0 100, Get_row 7, Set_flag First_col True] s1 = (r, s2) \<and>
      Table_rows sample_table s2 = (rows, s2)"
    by (intro exI [of _ rows] exI [of _ s1] exI [of _ r1] exI [of _ s2]) simp
  from c(1-4) c(5) [OF run2] run2 empty
  have B: "\<exists>columns s1 r s2. Table_columns sample_table sample_state = (columns, s1) \<and>
      columns_cache sample_state (Table_oid sample_table) = None \<and>
      columns = \<lparr>ColumnCollection_tbl = 0, ColumnCollection_parent = sample_table,
                  ColumnCollection_oid = 1\<rparr> \<and>
      next_oid sample_state = 1 \<and> next_oid s1 = 2 \<and>
      Table_columns sample_table s1 = (columns, s1) \<and>
      script sample_table [Set_column_width 0 10, List_rows] s1 = (r, s2) \<and>
      Table_columns sample_table s2 = (columns, s2)"
    by (intro exI [of _ columns] exI [of _ s1'] exI [of _ r2] exI [of _ s2']) simp
  from A B show ?thesis by (rule conjI)
qed

section \<open>Cell margins\<close>

text \<open>
  Claim C3, at a tuple. The four margin setters reject the tuple \<^verbatim>\<open>(1, 2)\<close> with a TypeError
  and leave the state as it was, but the error is the one \<^verbatim>\<open>tmpl % margin_value\<close> raises while
  the message is built, and its text does not name the value. For the one-element tuple
  \<^verbatim>\<open>(3.5,)\<close> the message names \<^verbatim>\<open>3.5\<close>, the element, and for \<^verbatim>\<open>()\<close> the formatting fails for
  want of an argument.
\<close>

theorem margin_set_tuple:
  "Cell_margin_left_set c (PyTuple [PyInt 1, PyInt 2]) s =
     (Inl (TypeError (Literal ''not all arguments converted during string formatting'')), s) \<and>
   Cell_margin_right_set c (PyTuple [PyInt 1, PyInt 2]) s =
     (Inl (TypeError (Literal ''not all arguments converted during string formatting'')), s) \<and>
   Cell_margin_top_set c (PyTuple [PyInt 1, PyInt 2]) s =
     (Inl (TypeError (Literal ''not all arguments converted during string formatting'')), s) \<and>
   Cell_margin_bottom_set c (PyTuple [PyInt 1, PyInt 2]) s =
     (Inl (TypeError (Literal ''not all arguments converted during string formatting'')), s) \<and>
   Cell_margin_left_set c (PyTuple [PyFloat 7 (- 1)]) s =
     (Inl (TypeError (Format margin_tmpl (PyFloat 7 (- 1)))), s) \<and>
   Cell_margin_left_set c (PyTuple []) s =
     (Inl (TypeError (Literal ''not enough arguments for format string'')), s)"
  by (simp add: Cell_margin_left_set_def Cell_margin_right_set_def Cell_margin_top_set_def
      Cell_margin_bottom_set_def validate_margin_value_def)

text \<open>
  The same on a cell of the sample table.
\<close>

theorem margin_set_tuple_witness:
  "Cell_margin_left_set \<lparr>Cell_tc = 7, Cell_parent = ParentTable sample_table, Cell_oid = 1\<rparr>
     (PyTuple [PyInt 1, PyInt 2]) (sample_state\<lparr>next_oid := 2\<rparr>) =
     (Inl (TypeError (Literal ''not all arguments converted during string formatting'')),
      sample_state\<lparr>next_oid := 2\<rparr>) \<and>
   Cell_margin_left_set \<lparr>Cell_tc = 7, Cell_parent = ParentTable sample_table, Cell_oid = 1\<rparr>
     (PyTuple [PyFloat 7 (- 1)]) (sample_state\<lparr>next_oid := 2\<rparr>) =
     (Inl (TypeError (Format margin_tmpl (PyFloat 7 (- 1)))), sample_state\<lparr>next_oid := 2\<rparr>)"
  using margin_set_tuple [of "\<lparr>Cell_tc = 7, Cell_parent = ParentTable sample_table, Cell_oid = 1\<rparr>"
      "sample_state\<lparr>next_oid := 2\<rparr>"]
  by simp

text \<open>
  The margin setters at every value that is not a tuple: an integer (zero and negative
  ones too) and \<^verbatim>\<open>None\<close> are stored in the attribute of the cell's element; any other value
  raises a TypeError whose message is the template filled with that value, and the state
  is left as it was.
\<close>

theorem margin_set_validates:
  assumes "\<forall>xs. v \<noteq> PyTuple xs"
  shows "Cell_margin_left_set c v s =
     (if is_integer v \<or> v = PyNone
      then (Inr (), s\<lparr>doc := (doc s)\<lparr>tc_marL := (tc_marL (doc s))(Cell_tc c := v)\<rparr>\<rparr>)
      else (Inl (TypeError (Format margin_tmpl v)), s)) \<and>
   Cell_margin_right_set c v s =
     (if is_integer v \<or> v = PyNone
      then (Inr (), s\<lparr>doc := (doc s)\<lparr>tc_marR := (tc_marR (doc s))(Cell_tc c := v)\<rparr>\<rparr>)
      else (Inl (TypeError (Format margin_tmpl v)), s)) \<and>
   Cell_margin_top_set c v s =
     (if is_integer v \<or> v = PyNone
      then (Inr (), s\<lparr>doc := (doc s)\<lparr>tc_marT := (tc_marT (doc s))(Cell_tc c := v)\<rparr>\<rparr>)
      else (Inl (TypeError (Format margin_tmpl v)), s)) \<and>
   Cell_margin_bottom_set c v s =
     (if is_integer v \<or> v = PyNone
      then (Inr (), s\<lparr>doc := (doc s)\<lparr>tc_marB := (tc_marB (doc s))(Cell_tc c := v)\<rparr>\<rparr>)
      else (Inl (TypeError (Format margin_tmpl v)), s))"
  using assms
  by (cases v)
    (simp_all add: Cell_margin_left_set_def Cell_margin_right_set_def Cell_margin_top_set_def
      Cell_margin_bottom_set_def validate_margin_value_def)

text \<open>
  On a cell of the sample table: \<^verbatim>\<open>3.5\<close> is rejected, \<^verbatim>\<open>-5\<close>, \<^verbatim>\<open>0\<close> and \<^verbatim>\<open>None\<close> are accepted.
\<close>

theorem margin_set_validates_witness:
  "(\<forall>xs. PyFloat 7 (- 1) \<noteq> PyTuple xs) \<and> (\<forall>xs. PyInt (- 5) \<noteq> PyTuple xs) \<and>
   (\<forall>xs. PyInt 0 \<noteq> PyTuple xs) \<and> (\<forall>xs. PyNone \<noteq> PyTuple xs) \<and>
   Cell_margin_left_set \<lparr>Cell_tc = 7, Cell_parent = ParentTable sample_table, Cell_oid = 1\<rparr>
     (PyFloat 7 (- 1)) (sample_state\<lparr>next_oid := 2\<rparr>) =
     (Inl (TypeError (Format margin_tmpl (PyFloat 7 (- 1)))), sample_state\<lparr>next_oid := 2\<rparr>) \<and>
   fst (Cell_margin_top_set \<lparr>Cell_tc = 7, Cell_parent = ParentTable sample_table, Cell_oid = 1\<rparr>
     (PyInt (- 5)) (sample_state\<lparr>next_oid := 2\<rparr>)) = Inr () \<and>
   fst (Cell_margin_right_set \<lparr>Cell_tc = 7, Cell_parent = ParentTable sample_table, Cell_oid = 1\<rparr>
     (PyInt 0) (sample_state\<lparr>next_oid := 2\<rparr>)) = Inr () \<and>
   fst (Cell_margin_bottom_set \<lparr>Cell_tc = 7, Cell_parent = ParentTable sample_table, Cell_oid = 1\<rparr>
     PyNone (sample_state\<lparr>next_oid := 2\<rparr>)) = Inr ()"
  using margin_set_validates [of "PyFloat 7 (- 1)"
      "\<lparr>Cell_tc = 7, Cell_parent = ParentTable sample_table, Cell_oid = 1\<rparr>"
      "sample_state\<lparr>next_oid := 2\<rparr>"]
    margin_set_validates [of "PyInt (- 5)"
      "\<lparr>Cell_tc = 7, Cell_parent = ParentTable sample_table, Cell_oid = 1\<rparr>"
      "sample_state\<lparr>next_oid := 2\<rparr>"]
    margin_set_validates [of "PyInt 0"
      "\<lparr>Cell_tc = 7, Cell_parent = ParentTable sample_table, Cell_oid = 1\<rparr>"
      "sample_state\<lparr>next_oid := 2\<rparr>"]
    margin_set_validates [of PyNone
      "\<lparr>Cell_tc = 7, Cell_parent = ParentTable sample_table, Cell_oid = 1\<rparr>"
      "sample_state\<lparr>next_oid := 2\<rparr>"]
  by simp

section \<open>Indexed access and iteration\<close>

text \<open>
  Claim C4. For each of the three collections and every integer \<open>idx\<close>: if \<open>idx\<close> is
  negative or at least the length of the collection, \<^verbatim>\<open>collection[idx]\<close> raises an IndexError
  whose message is the collection's template filled with \<open>idx\<close> and the state is unchanged
  (so a negative index never counts from the end); otherwise it returns a new proxy of the
  element at position \<open>idx\<close> of the underlying sequence, with the collection as parent.
\<close>

theorem getitem_index_out_of_range:
  "CellCollection_getitem cells idx s =
     (if idx < 0 \<or> int (CellCollection_len cells s) \<le> idx
      then (Inl (IndexError (Format ''cell index [%d] out of range'' (PyInt idx))), s)
      else (Inr \<lparr>Cell_tc = tr_tc_lst (doc s) (CellCollection_tr cells) ! nat idx,
                 Cell_parent = ParentCells cells, Cell_oid = next_oid s\<rparr>,
            s\<lparr>next_oid := Suc (next_oid s)\<rparr>)) \<and>
   RowCollection_getitem rows idx s =
     (if idx < 0 \<or> int (RowCollection_len rows s) \<le> idx
      then (Inl (IndexError (Format ''row index [%d] out of range'' (PyInt idx))), s)
      else (Inr \<lparr>Row_tr = tbl_tr_lst (doc s) (RowCollection_tbl rows) ! nat idx,
                 Row_parent = rows, Row_oid = next_oid s\<rparr>,
            s\<lparr>next_oid := Suc (next_oid s)\<rparr>)) \<and>
   ColumnCollection_getitem columns idx s =
     (if idx < 0 \<or> int (ColumnCollection_len columns s) \<le> idx
      then (Inl (IndexError (Format ''column index [%d] out of range'' (PyInt idx))), s)
      else (Inr \<lparr>Column_gridCol =
                   tblGrid_gridCol_lst (doc s)
                     (tbl_tblGrid (doc s) (ColumnCollection_tbl columns)) ! nat idx,
                 Column_parent = columns, Column_oid = next_oid s\<rparr>,
            s\<lparr>next_oid := Suc (next_oid s)\<rparr>))"
  by (simp only: CellCollection_getitem_eq RowCollection_getitem_eq ColumnCollection_getitem_eq
      simp_thms)

text \<open>
  On the sample table: the indices -1 and the length are rejected, an index in range is served.
\<close>

theorem getitem_index_out_of_range_witness:
  "CellCollection_getitem sample_cells (- 1) later_state =
     (Inl (IndexError (Format ''cell index [%d] out of range'' (PyInt (- 1)))), later_state) \<and>
   CellCollection_getitem sample_cells 3 later_state =
     (Inl (IndexError (Format ''cell index [%d] out of range'' (PyInt 3))), later_state) \<and>
   CellCollection_getitem sample_cells 2 later_state =
     (Inr \<lparr>Cell_tc = 12, Cell_parent = ParentCells sample_cells, Cell_oid = 5\<rparr>,
      later_state\<lparr>next_oid := 6\<rparr>) \<and>
   RowCollection_getitem sample_rows (- 1) later_state =
     (Inl (IndexError (Format ''row index [%d] out of range'' (PyInt (- 1)))), later_state) \<and>
   RowCollection_getitem sample_rows 2 later_state =
     (Inl (IndexError (Format ''row index [%d] out of range'' (PyInt 2))), later_state) \<and>
   RowCollection_getitem sample_rows 0 later_state =
     (Inr \<lparr>Row_tr = 5, Row_parent = sample_rows, Row_oid = 5\<rparr>,
      later_state\<lparr>next_oid := 6\<rparr>) \<and>
   ColumnCollection_getitem sample_columns (- 1) later_state =
     (Inl (IndexError (Format ''column index [%d] out of range'' (PyInt (- 1)))), later_state) \<and>
   ColumnCollection_getitem sample_columns 3 later_state =
     (Inl (IndexError (Format ''column index [%d] out of range'' (PyInt 3))), later_state) \<and>
   ColumnCollection_getitem sample_columns 1 later_state =
     (Inr \<lparr>Column_gridCol = 3, Column_parent = sample_columns, Column_oid = 5\<rparr>,
      later_state\<lparr>next_oid := 6\<rparr>)"
  using getitem_index_out_of_range [of sample_cells "- 1" later_state sample_rows sample_columns]
    getitem_index_out_of_range [of sample_cells 3 later_state sample_rows sample_columns]
    getitem_index_out_of_range [of sample_cells 2 later_state sample_rows sample_columns]
    getitem_index_out_of_range [of sample_cells 0 later_state sample_rows sample_columns]
    getitem_index_out_of_range [of sample_cells 1 later_state sample_rows sample_columns]
  by (simp add: CellCollection_len_def RowCollection_len_def ColumnCollection_len_def
      sample_defs sample_proxy_defs)

text \<open>
  Claim C8. Iterating each of the three collections ends and yields as many proxies as the
  collection is long, one per element of the underlying sequence and in its order, each a
  new object with the collection as parent; the document is unchanged, and iterating
  again afterwards yields a proxy for every element again, from the first on. For rows
  and columns the iteration is the sequence protocol over \<^verbatim>\<open>__getitem__\<close> and ends without an
  exception.
\<close>

theorem iteration_yields_all:
  "(\<exists>cs s'. CellCollection_iter cells s = (cs, s') \<and>
      length cs = CellCollection_len cells s \<and>
      map Cell_tc cs = tr_tc_lst (doc s) (CellCollection_tr cells) \<and>
      map Cell_parent cs = replicate (CellCollection_len cells s) (ParentCells cells) \<and>
      map Cell_oid cs = [next_oid s..<next_oid s + CellCollection_len cells s] \<and>
      doc s' = doc s \<and>
      (\<exists>cs' s''. CellCollection_iter cells s' = (cs', s'') \<and>
         map Cell_tc cs' = tr_tc_lst (doc s) (CellCollection_tr cells))) \<and>
   (\<exists>rs s'. RowCollection_iter rows s = (Inr rs, s') \<and>
      length rs = RowCollection_len rows s \<and>
      map Row_tr rs = tbl_tr_lst (doc s) (RowCollection_tbl rows) \<and>
      map Row_parent rs = replicate (RowCollection_len rows s) rows \<and>
      map Row_oid rs = [next_oid s..<next_oid s + RowCollection_len rows s] \<and>
      doc s' = doc s \<and>
      (\<exists>rs' s''. RowCollection_iter rows s' = (Inr rs', s'') \<and>
         map Row_tr rs' = tbl_tr_lst (doc s) (RowCollection_tbl rows))) \<and>
   (\<exists>cols s'. ColumnCollection_iter columns s = (Inr cols, s') \<and>
      length cols = ColumnCollection_len columns s \<and>
      map Column_gridCol cols =
        tblGrid_gridCol_lst (doc s) (tbl_tblGrid (doc s) (ColumnCollection_tbl columns)) \<and>
      map Column_parent cols = replicate (ColumnCollection_len columns s) columns \<and>
      map Column_oid cols = [next_oid s..<next_oid s + ColumnCollection_len columns s] \<and>
      doc s' = doc s \<and>
      (\<exists>cols' s''. ColumnCollection_iter columns s' = (Inr cols', s'') \<and>
         map Column_gridCol cols' =
           tblGrid_gridCol_lst (doc s) (tbl_tblGrid (doc s) (ColumnCollection_tbl columns))))"
proof (intro conjI)
  let ?tcs = "tr_tc_lst (doc s) (CellCollection_tr cells)"
  note tc = cells_of_enumerate(1) [of cells _ ?tcs]
  note par = cells_of_enumerate(2) [of cells _ ?tcs]
  note oid = cell_oids_of_enumerate [of cells _ ?tcs]
  show "\<exists>cs s'. CellCollection_iter cells s = (cs, s') \<and>
      length cs = CellCollection_len cells s \<and>
      map Cell_tc cs = tr_tc_lst (doc s) (CellCollection_tr cells) \<and>
      map Cell_parent cs = replicate (CellCollection_len cells s) (ParentCells cells) \<and>
      map Cell_oid cs = [next_oid s..<next_oid s + CellCollection_len cells s] \<and>
      doc s' = doc s \<and>
      (\<exists>cs' s''. CellCollection_iter cells s' = (cs', s'') \<and>
         map Cell_tc cs' = tr_tc_lst (doc s) (CellCollection_tr cells))"
    using tc par oid
    by (simp add: CellCollection_iter_eq CellCollection_len_def)
next
  let ?trs = "tbl_tr_lst (doc s) (RowCollection_tbl rows)"
  show "\<exists>rs s'. RowCollection_iter rows s = (Inr rs, s') \<and>
      length rs = RowCollection_len rows s \<and>
      map Row_tr rs = tbl_tr_lst (doc s) (RowCollection_tbl rows) \<and>
      map Row_parent rs = replicate (RowCollection_len rows s) rows \<and>
      map Row_oid rs = [next_oid s..<next_oid s + RowCollection_len rows s] \<and>
      doc s' = doc s \<and>
      (\<exists>rs' s''. RowCollection_iter rows s' = (Inr rs', s'') \<and>
         map Row_tr rs' = tbl_tr_lst (doc s) (RowCollection_tbl rows))"
    using map_nth_upt [of "\<lambda>x. x" ?trs]
    by (simp add: RowCollection_iter_eq RowCollection_len_def comp_def map_replicate_const
        map_add_upt)
next
  let ?gcs = "tblGrid_gridCol_lst (doc s) (tbl_tblGrid (doc s) (ColumnCollection_tbl columns))"
  show "\<exists>cols s'. ColumnCollection_iter columns s = (Inr cols, s') \<and>
      length cols = ColumnCollection_len columns s \<and>
      map Column_gridCol cols = ?gcs \<and>
      map Column_parent cols = replicate (ColumnCollection_len columns s) columns \<and>
      map Column_oid cols = [next_oid s..<next_oid s + ColumnCollection_len columns s] \<and>
      doc s' = doc s \<and>
      (\<exists>cols' s''. ColumnCollection_iter columns s' = (Inr cols', s'') \<and>
         map Column_gridCol cols' = ?gcs)"
    using map_nth_upt [of "\<lambda>x. x" ?gcs]
    by (simp add: ColumnCollection_iter_eq ColumnCollection_len_def comp_def
        map_replicate_const map_add_upt)
qed

text \<open>
  The three collections of the sample table.
\<close>

theorem iteration_yields_all_witness:
  "(\<exists>cs s'. CellCollection_iter sample_cells later_state = (cs, s') \<and>
      length cs = 3 \<and> map Cell_tc cs = [10, 11, 12] \<and>
      map Cell_parent cs = replicate 3 (ParentCells sample_cells) \<and>
      map Cell_oid cs = [5, 6, 7] \<and> doc s' = doc later_state \<and>
      (\<exists>cs' s''. CellCollection_iter sample_cells s' = (cs', s'') \<and>
         map Cell_tc cs' = [10, 11, 12])) \<and>
   (\<exists>rs s'. RowCollection_iter sample_rows later_state = (Inr rs, s') \<and>
      length rs = 2 \<and> map Row_tr rs = [5, 6] \<and>
      map Row_parent rs = replicate 2 sample_rows \<and>
      map Row_oid rs = [5, 6] \<and> doc s' = doc later_state \<and>
      (\<exists>rs' s''. RowCollection_iter sample_rows s' = (Inr rs', s'') \<and>
         map Row_tr rs' = [5, 6])) \<and>
   (\<exists>cols s'. ColumnCollection_iter sample_columns later_state = (Inr cols, s') \<and>
      length cols = 3 \<and> map Column_gridCol cols = [2, 3, 4] \<and>
      map Column_parent cols = replicate 3 sample_columns \<and>
      map Column_oid cols = [5, 6, 7] \<and> doc s' = doc later_state \<and>
      (\<exists>cols' s''. ColumnCollection_iter sample_columns s' = (Inr cols', s'') \<and>
         map Column_gridCol cols' = [2, 3, 4]))"
proof -
  have facts:
    "tr_tc_lst (doc later_state) (CellCollection_tr sample_cells) = [10, 11, 12]"
    "tbl_tr_lst (doc later_state) (RowCollection_tbl sample_rows) = [5, 6]"
    "tblGrid_gridCol_lst (doc later_state)
       (tbl_tblGrid (doc later_state) (ColumnCollection_tbl sample_columns)) = [2, 3, 4]"
    "CellCollection_len sample_cells later_state = 3"
    "RowCollection_len sample_rows later_state = 2"
    "ColumnCollection_len sample_columns later_state = 3"
    "next_oid later_state = 5"
    by (simp_all add: CellCollection_len_def RowCollection_len_def ColumnCollection_len_def
        sample_defs sample_proxy_defs)
  have upt: "[5..<5 + 3] = [5, 6, 7::nat]" "[5..<5 + 2] = [5, 6::nat]"
    by (simp_all add: upt_rec)
  from iteration_yields_all [of sample_cells later_state sample_rows sample_columns]
  show ?thesis
    unfolding facts upt .
qed

section \<open>Equality of cells\<close>

text \<open>
  Claim C5. Two \<^verbatim>\<open>_Cell\<close> proxies are equal exactly when their elements are the same element,
  and \<^verbatim>\<open>!=\<close> is the negation of \<^verbatim>\<open>==\<close>, whatever the identity and the parent of the
  proxies. Two calls of \<^verbatim>\<open>table.cell\<close> build two proxies (their identities differ); the two
  are equal exactly when the Grid Accessor resolves the two coordinates to the same element,
  so two calls at the same coordinate give equal cells.
\<close>

theorem Cell_eq_same_element:
  "Cell_eq a (CellObj b) = Inr (Cell_tc a = Cell_tc b) \<and>
   Cell_ne a (CellObj b) = Inr (Cell_tc a \<noteq> Cell_tc b) \<and>
   (Table_cell t r c s = (Inr p, s1) \<and> Table_cell t r' c' s1 = (Inr q, s2) \<longrightarrow>
      Cell_oid p \<noteq> Cell_oid q \<and>
      Cell_eq p (CellObj q) =
        Inr (tbl_tc (doc s) (Table_tbl t) r c = tbl_tc (doc s) (Table_tbl t) r' c') \<and>
      Cell_ne p (CellObj q) =
        Inr (tbl_tc (doc s) (Table_tbl t) r c \<noteq> tbl_tc (doc s) (Table_tbl t) r' c'))"
proof -
  have general: "Cell_eq a (CellObj b) = Inr (Cell_tc a = Cell_tc b)"
    "Cell_ne a (CellObj b) = Inr (Cell_tc a \<noteq> Cell_tc b)" for a b
    by (simp_all add: Cell_eq_def Cell_ne_def)
  have "Cell_oid p \<noteq> Cell_oid q \<and>
      Cell_eq p (CellObj q) =
        Inr (tbl_tc (doc s) (Table_tbl t) r c = tbl_tc (doc s) (Table_tbl t) r' c') \<and>
      Cell_ne p (CellObj q) =
        Inr (tbl_tc (doc s) (Table_tbl t) r c \<noteq> tbl_tc (doc s) (Table_tbl t) r' c')"
    if first: "Table_cell t r c s = (Inr p, s1)" and second: "Table_cell t r' c' s1 = (Inr q, s2)"
  proof -
    from Table_cell_Inr [OF first] have p: "tbl_tc (doc s) (Table_tbl t) r c = Inr (Cell_tc p)"
      "Cell_oid p = next_oid s" "s1 = s\<lparr>next_oid := Suc (next_oid s)\<rparr>" by simp_all
    from Table_cell_Inr [OF second] have q: "tbl_tc (doc s1) (Table_tbl t) r' c' = Inr (Cell_tc q)"
      "Cell_oid q = next_oid s1" by simp_all
    from p q show ?thesis by (simp add: general)
  qed
  with general show ?thesis by blast
qed

text \<open>
  On the sample table: \<^verbatim>\<open>table.cell(1, 2)\<close> twice, and \<^verbatim>\<open>table.cell(1, 1)\<close>.
\<close>

theorem Cell_eq_same_element_witness:
  "Table_cell sample_table 1 2 sample_state =
     (Inr \<lparr>Cell_tc = 12, Cell_parent = ParentTable sample_table, Cell_oid = 1\<rparr>,
      sample_state\<lparr>next_oid := 2\<rparr>) \<and>
   Table_cell sample_table 1 2 (sample_state\<lparr>next_oid := 2\<rparr>) =
     (Inr \<lparr>Cell_tc = 12, Cell_parent = ParentTable sample_table, Cell_oid = 2\<rparr>,
      sample_state\<lparr>next_oid := 3\<rparr>) \<and>
   Table_cell sample_table 1 1 (sample_state\<lparr>next_oid := 2\<rparr>) =
     (Inr \<lparr>Cell_tc = 11, Cell_parent = ParentTable sample_table, Cell_oid = 2\<rparr>,
      sample_state\<lparr>next_oid := 3\<rparr>) \<and>
   Cell_eq \<lparr>Cell_tc = 12, Cell_parent = ParentTable sample_table, Cell_oid = 1\<rparr>
     (CellObj \<lparr>Cell_tc = 12, Cell_parent = ParentTable sample_table, Cell_oid = 2\<rparr>) = Inr True \<and>
   Cell_ne \<lparr>Cell_tc = 12, Cell_parent = ParentTable sample_table, Cell_oid = 1\<rparr>
     (CellObj \<lparr>Cell_tc = 12, Cell_parent = ParentTable sample_table, Cell_oid = 2\<rparr>) = Inr False \<and>
   Cell_eq \<lparr>Cell_tc = 12, Cell_parent = ParentTable sample_table, Cell_oid = 1\<rparr>
     (CellObj \<lparr>Cell_tc = 11, Cell_parent = ParentTable sample_table, Cell_oid = 2\<rparr>) = Inr False \<and>
   Cell_ne \<lparr>Cell_tc = 12, Cell_parent = ParentTable sample_table, Cell_oid = 1\<rparr>
     (CellObj \<lparr>Cell_tc = 11, Cell_parent = ParentTable sample_table, Cell_oid = 2\<rparr>) = Inr True"
proof -
  let ?p = "\<lparr>Cell_tc = 12, Cell_parent = ParentTable sample_table, Cell_oid = 1\<rparr>"
  let ?q = "\<lparr>Cell_tc = 12, Cell_parent = ParentTable sample_table, Cell_oid = 2\<rparr>"
  let ?u = "\<lparr>Cell_tc = 11, Cell_parent = ParentTable sample_table, Cell_oid = 2\<rparr>"
  have first: "Table_cell sample_table 1 2 sample_state = (Inr ?p, sample_state\<lparr>next_oid := 2\<rparr>)"
    by (simp add: Table_cell_def Cell_init_def alloc_def sample_defs)
  have same: "Table_cell sample_table 1 2 (sample_state\<lparr>next_oid := 2\<rparr>) =
      (Inr ?q, sample_state\<lparr>next_oid := 3\<rparr>)"
    by (simp add: Table_cell_def Cell_init_def alloc_def sample_defs)
  have other: "Table_cell sample_table 1 1 (sample_state\<lparr>next_oid := 2\<rparr>) =
      (Inr ?u, sample_state\<lparr>next_oid := 3\<rparr>)"
    by (simp add: Table_cell_def Cell_init_def alloc_def sample_defs)
  have res: "tbl_tc (doc sample_state) (Table_tbl sample_table) 1 2 = Inr 12"
    "tbl_tc (doc sample_state) (Table_tbl sample_table) 1 1 = Inr 11"
    by (simp_all add: sample_defs)
  from Cell_eq_same_element [of ?p ?q sample_table 1 2 sample_state ?p
      "sample_state\<lparr>next_oid := 2\<rparr>" 1 2 ?q "sample_state\<lparr>next_oid := 3\<rparr>"]
    Cell_eq_same_element [of ?p ?u sample_table 1 2 sample_state ?p
      "sample_state\<lparr>next_oid := 2\<rparr>" 1 1 ?u "sample_state\<lparr>next_oid := 3\<rparr>"]
    first same other res
  show ?thesis by simp
qed

text \<open>
  Claim C10. For a right-hand operand that is not a \<^verbatim>\<open>_Cell\<close>, \<^verbatim>\<open>==\<close> returns False and
  \<^verbatim>\<open>!=\<close> returns True; neither raises, the attribute \<^verbatim>\<open>_tc\<close> of the operand is never read.
\<close>

theorem Cell_eq_other_type:
  "\<not> isinstance_Cell x \<Longrightarrow> Cell_eq c x = Inr False \<and> Cell_ne c x = Inr True"
  by (simp add: Cell_eq_def Cell_ne_def)

text \<open>
  A cell compared with the integer 7.
\<close>

theorem Cell_eq_other_type_witness:
  "\<not> isinstance_Cell (ValObj (PyInt 7)) \<and>
   Cell_eq \<lparr>Cell_tc = 7, Cell_parent = ParentTable sample_table, Cell_oid = 1\<rparr> (ValObj (PyInt 7))
     = Inr False \<and>
   Cell_ne \<lparr>Cell_tc = 7, Cell_parent = ParentTable sample_table, Cell_oid = 1\<rparr> (ValObj (PyInt 7))
     = Inr True"
  using Cell_eq_other_type [of "ValObj (PyInt 7)"
      "\<lparr>Cell_tc = 7, Cell_parent = ParentTable sample_table, Cell_oid = 1\<rparr>"]
  by simp

end
